theory Spec2Isabelle
  imports Complex_Main
begin

section \<open>Hotel reservation domain: a shallow embedding of the aggregates\<close>

text \<open>
  The three aggregates of \<^verbatim>\<open>domain/entities\<close> (Availability, Reservation,
  WaitlistEntry) and the value objects of \<^verbatim>\<open>domain/value_objects.py\<close> are
  embedded as records and functions. A method that mutates \<^verbatim>\<open>self\<close> is a function
  from the object to a pair: what the call produced (an error for a raised exception,
  or the returned value) and the object as it is when the call ends. A raise therefore
  hands back the object with every assignment made before the raise.
\<close>

subsection \<open>Dates, datetimes and timedeltas\<close>

text \<open>
  A \<^verbatim>\<open>date\<close> is its proleptic Gregorian ordinal, a \<^verbatim>\<open>datetime\<close> the number of
  microseconds since the start of day 0. A \<^verbatim>\<open>timedelta\<close> is normalised as Python
  does it: \<open>0 \<le> seconds < 86400\<close> and \<open>0 \<le> microseconds < 10\<^sup>6\<close>, the sign carried by
  \<open>days\<close> alone, so \<^verbatim>\<open>.days\<close> of a negative difference rounds towards minus infinity.
\<close>

type_synonym date = int
type_synonym datetime = int
type_synonym uuid = nat

record timedelta =
  days :: int
  seconds :: int
  microseconds :: int

definition usec_per_second :: int where
  "usec_per_second = 1000000"

definition usec_per_day :: int where
  "usec_per_day = 86400 * usec_per_second"

definition timedelta_of_usec :: "int \<Rightarrow> timedelta" where
  "timedelta_of_usec us =
     \<lparr>days = us div usec_per_day,
      seconds = (us mod usec_per_day) div usec_per_second,
      microseconds = (us mod usec_per_day) mod usec_per_second\<rparr>"

definition timedelta_days :: "int \<Rightarrow> timedelta" where
  \<comment> \<open>\<^verbatim>\<open>timedelta(days=n)\<close>\<close>
  "timedelta_days n = \<lparr>days = n, seconds = 0, microseconds = 0\<rparr>"

definition usec_of_timedelta :: "timedelta \<Rightarrow> int" where
  "usec_of_timedelta td =
     days td * usec_per_day + seconds td * usec_per_second + microseconds td"

definition datetime_sub :: "datetime \<Rightarrow> datetime \<Rightarrow> timedelta" where
  \<comment> \<open>\<^verbatim>\<open>a - b\<close> on two datetimes\<close>
  "datetime_sub a b = timedelta_of_usec (a - b)"

definition datetime_add :: "datetime \<Rightarrow> timedelta \<Rightarrow> datetime" where
  \<comment> \<open>\<^verbatim>\<open>a + td\<close>\<close>
  "datetime_add a td = a + usec_of_timedelta td"

definition date_sub :: "date \<Rightarrow> date \<Rightarrow> timedelta" where
  \<comment> \<open>\<^verbatim>\<open>a - b\<close> on two dates\<close>
  "date_sub a b = timedelta_days (a - b)"

definition date_add :: "date \<Rightarrow> timedelta \<Rightarrow> date" where
  \<comment> \<open>\<^verbatim>\<open>d + td\<close> on a date uses the days of the timedelta only\<close>
  "date_add d td = d + days td"

definition date_of :: "datetime \<Rightarrow> date" where
  \<comment> \<open>\<^verbatim>\<open>dt.date()\<close>\<close>
  "date_of dt = dt div usec_per_day"

text \<open>
  The clock is read from the environment: \<^verbatim>\<open>datetime.utcnow()\<close> and
  \<^verbatim>\<open>date.today()\<close>. One reading of each is passed to a method call.
\<close>

record clock =
  utcnow :: datetime
  today :: date

subsection \<open>Errors\<close>

text \<open>
  The aggregates raise \<^verbatim>\<open>ValueError(message)\<close>; a failed model construction raises
  pydantic's \<^verbatim>\<open>ValidationError\<close>, which carries the messages of the failed fields.
  Arithmetic on \<^verbatim>\<open>Decimal\<close> raises the signals that the default context traps:
  \<^verbatim>\<open>Overflow\<close>, \<^verbatim>\<open>DivisionByZero\<close> and \<^verbatim>\<open>DivisionUndefined\<close> (an
  \<^verbatim>\<open>InvalidOperation\<close>).
\<close>

datatype error =
  ValueError string | ValidationError "string list"
  | Overflow string | DivisionByZero string | DivisionUndefined string

text \<open>
  The end of a construction: the object if no field failed, otherwise the collected
  messages as one \<^verbatim>\<open>ValidationError\<close>.
\<close>

definition validated :: "string list \<Rightarrow> 'a \<Rightarrow> error + 'a" where
  "validated errors obj = (if errors = [] then Inr obj else Inl (ValidationError errors))"

definition ge_constraint :: "int \<Rightarrow> string list" where
  \<comment> \<open>\<^verbatim>\<open>Field(ge=0)\<close> on an integer field\<close>
  "ge_constraint v =
     (if v \<ge> 0 then [] else [''ensure this value is greater than or equal to 0''])"

subsection \<open>Availability\<close>

record availability =
  room_type_id_av :: string
  availability_date :: date
  total_rooms :: int
  reserved_rooms :: int
  blocked_rooms :: int
  overbooking_threshold :: int
  last_updated :: datetime
  version_av :: int

definition available_rooms :: "availability \<Rightarrow> int" where
  "available_rooms self = total_rooms self - reserved_rooms self - blocked_rooms self"

definition is_fully_booked :: "availability \<Rightarrow> bool" where
  "is_fully_booked self = (available_rooms self \<le> 0)"

definition can_overbook :: "availability \<Rightarrow> bool" where
  "can_overbook self =
     (let current_overbooking = max 0 (- available_rooms self)
      in current_overbooking < overbooking_threshold self)"

definition check_availability :: "availability \<Rightarrow> int \<Rightarrow> bool" where
  "check_availability self count =
     (available_rooms self \<ge> count \<or>
      available_rooms self + overbooking_threshold self \<ge> count)"

definition reserve_rooms :: "clock \<Rightarrow> int \<Rightarrow> availability \<Rightarrow> (error + unit) \<times> availability" where
  "reserve_rooms clk count self =
     (if \<not> check_availability self count
      then (Inl (ValueError ''Insufficient availability''), self)
      else (Inr (),
            self\<lparr>reserved_rooms := reserved_rooms self + count,
                 last_updated := utcnow clk,
                 version_av := version_av self + 1\<rparr>))"

definition release_rooms :: "clock \<Rightarrow> int \<Rightarrow> availability \<Rightarrow> (error + unit) \<times> availability" where
  "release_rooms clk count self =
     (if count > reserved_rooms self
      then (Inl (ValueError ''Cannot release more than reserved''), self)
      else (Inr (),
            self\<lparr>reserved_rooms := reserved_rooms self - count,
                 last_updated := utcnow clk,
                 version_av := version_av self + 1\<rparr>))"

definition block_rooms :: "clock \<Rightarrow> int \<Rightarrow> string \<Rightarrow> availability \<Rightarrow> (error + unit) \<times> availability" where
  "block_rooms clk count reason self =
     (if blocked_rooms self + count > total_rooms self
      then (Inl (ValueError ''Cannot block more rooms than total available''), self)
      else (Inr (),
            self\<lparr>blocked_rooms := blocked_rooms self + count,
                 last_updated := utcnow clk,
                 version_av := version_av self + 1\<rparr>))"

definition unblock_rooms :: "clock \<Rightarrow> int \<Rightarrow> availability \<Rightarrow> (error + unit) \<times> availability" where
  "unblock_rooms clk count self =
     (if count > blocked_rooms self
      then (Inl (ValueError ''Cannot unblock more than blocked''), self)
      else (Inr (),
            self\<lparr>blocked_rooms := blocked_rooms self - count,
                 last_updated := utcnow clk,
                 version_av := version_av self + 1\<rparr>))"

text \<open>
  The validator of \<^verbatim>\<open>reserved_rooms\<close> and \<^verbatim>\<open>blocked_rooms\<close>. It reads the
  other fields from \<^verbatim>\<open>values\<close>, which holds the fields declared before the one
  under validation that have passed; a missing name reads as the default \<open>0\<close>.
\<close>

definition validate_capacity :: "(string \<rightharpoonup> int) \<Rightarrow> string list" where
  "validate_capacity values =
     (case values ''total_rooms'' of
        None \<Rightarrow> []
      | Some tot \<Rightarrow>
          let overbooking = (case values ''overbooking_threshold'' of None \<Rightarrow> 0 | Some x \<Rightarrow> x);
              max_allowed = tot + overbooking;
              reserved = (case values ''reserved_rooms'' of None \<Rightarrow> 0 | Some x \<Rightarrow> x);
              blocked = (case values ''blocked_rooms'' of None \<Rightarrow> 0 | Some x \<Rightarrow> x)
          in if reserved + blocked > max_allowed
             then [''reserved_rooms + blocked_rooms exceeds capacity'']
             else [])"

text \<open>
  The constructor. The declaration order is \<^verbatim>\<open>total_rooms\<close>,
  \<^verbatim>\<open>reserved_rooms\<close>, \<^verbatim>\<open>blocked_rooms\<close>, \<^verbatim>\<open>overbooking_threshold\<close>; the
  validator of a field runs after the bound of the field has passed.
\<close>

definition Availability :: "string \<Rightarrow> date \<Rightarrow> int \<Rightarrow> int \<Rightarrow> int \<Rightarrow> int \<Rightarrow> datetime \<Rightarrow> int
    \<Rightarrow> error + availability" where
  "Availability rtid d tot reserved blocked overbooking updated ver =
     (let e_total = ge_constraint tot;
          values1 = (if e_total = [] then [''total_rooms'' \<mapsto> tot] else Map.empty);
          e_reserved = (if ge_constraint reserved = [] then validate_capacity values1
                        else ge_constraint reserved);
          values2 = (if e_reserved = [] then values1(''reserved_rooms'' \<mapsto> reserved) else values1);
          e_blocked = (if ge_constraint blocked = [] then validate_capacity values2
                       else ge_constraint blocked);
          e_overbooking = ge_constraint overbooking
      in validated (e_total @ e_reserved @ e_blocked @ e_overbooking)
           \<lparr>room_type_id_av = rtid, availability_date = d, total_rooms = tot,
            reserved_rooms = reserved, blocked_rooms = blocked,
            overbooking_threshold = overbooking, last_updated = updated, version_av = ver\<rparr>)"

text \<open>\<^verbatim>\<open>AvailabilityService.create_availability\<close>, without the repository.\<close>

definition create_availability :: "clock \<Rightarrow> string \<Rightarrow> date \<Rightarrow> int \<Rightarrow> int \<Rightarrow> error + availability" where
  "create_availability clk rtid d tot overbooking =
     Availability rtid d tot 0 0 overbooking (utcnow clk) 1"

text \<open>The capacity invariant of the aggregate.\<close>

definition capacity_invariant :: "availability \<Rightarrow> bool" where
  "capacity_invariant self =
     (reserved_rooms self + blocked_rooms self
        \<le> total_rooms self + overbooking_threshold self)"

text \<open>The ledger of the worked example: ten rooms, two of overbooking, nothing taken.\<close>

definition deluxe_day :: availability where
  "deluxe_day =
     \<lparr>room_type_id_av = ''DELUXE_001'', availability_date = 739000,
      total_rooms = 10, reserved_rooms = 0, blocked_rooms = 0,
      overbooking_threshold = 2, last_updated = 0, version_av = 1\<rparr>"

definition noon :: clock where
  "noon = \<lparr>utcnow = 739000 * usec_per_day + 43200 * usec_per_second, today = 739000\<rparr>"

subsection \<open>Decimal numbers\<close>

text \<open>
  A finite \<^verbatim>\<open>Decimal\<close> as Python holds it: a sign, the coefficient (the integer that the
  digit string \<^verbatim>\<open>_int\<close> spells) and the exponent \<^verbatim>\<open>_exp\<close>. Its value is the
  signed coefficient times ten to the exponent; comparisons of Decimals compare values.
\<close>

record decimal =
  dec_sign :: bool
  dec_int :: nat
  dec_exp :: int

definition dec_value :: "decimal \<Rightarrow> rat" where
  "dec_value d = (if dec_sign d then - 1 else 1) * of_nat (dec_int d) * 10 powi dec_exp d"

text \<open>
  The default context: 28 significant digits, rounding half to even, exponents between
  \<open>Emin\<close> and \<open>Emax\<close>.
\<close>

definition context_prec :: int where "context_prec = 28"
definition Emax :: int where "Emax = 999999"
definition Emin :: int where "Emin = - 999999"
definition Etiny :: int where "Etiny = Emin - context_prec + 1"
definition Etop :: int where "Etop = Emax - context_prec + 1"

text \<open>The length of the digit string of a coefficient.\<close>

fun ndigits :: "nat \<Rightarrow> nat" where
  "ndigits n = (if n < 10 then 1 else Suc (ndigits (n div 10)))"

declare ndigits.simps [simp del]

text \<open>
  \<^verbatim>\<open>_round_half_even(self, prec)\<close> on the digit string: \<open>kept\<close> digits stay, the
  rest is the tail. The result is \<open>1\<close> to round up, \<open>0\<close> when the tail is zero and
  \<open>-1\<close> to round down.
\<close>

definition round_half_even :: "nat \<Rightarrow> nat \<Rightarrow> int" where
  "round_half_even coeff kept =
     (let dropped = ndigits coeff - kept;
          tail = coeff mod 10 ^ dropped;
          exact_half = (2 * tail = 10 ^ dropped)
      in if exact_half \<and> (kept = 0 \<or> even (coeff div 10 ^ dropped)) then - 1
         else if 2 * tail \<ge> 10 ^ dropped then 1
         else if tail = 0 then 0
         else - 1)"

text \<open>
  \<^verbatim>\<open>_fix\<close>: rounds a result to the precision of the context and keeps its exponent
  in range.
\<close>

definition dec_fix :: "decimal \<Rightarrow> error + decimal" where
  "dec_fix self =
     (if dec_int self = 0
      then Inr (self\<lparr>dec_exp := min (max (dec_exp self) Etiny) Emax\<rparr>)
      else
        let exp_min = int (ndigits (dec_int self)) + dec_exp self - context_prec
        in if exp_min > Etop then Inl (Overflow ''above Emax'')
           else
             let exp_min = (if exp_min < Etiny then Etiny else exp_min)
             in if dec_exp self < exp_min
                then
                  let digits = int (ndigits (dec_int self)) + dec_exp self - exp_min;
                      self = (if digits < 0 then self\<lparr>dec_int := 1, dec_exp := exp_min - 1\<rparr>
                              else self);
                      digits = (if digits < 0 then 0 else digits);
                      changed = round_half_even (dec_int self) (nat digits);
                      coeff = dec_int self div 10 ^ (ndigits (dec_int self) - nat digits);
                      grown = (changed > 0 \<and> int (ndigits (coeff + 1)) > context_prec);
                      coeff = (if changed > 0
                               then (if grown then (coeff + 1) div 10 else coeff + 1)
                               else coeff);
                      exp_min = (if grown then exp_min + 1 else exp_min)
                  in if exp_min > Etop then Inl (Overflow ''above Emax'')
                     else Inr \<lparr>dec_sign = dec_sign self, dec_int = coeff, dec_exp = exp_min\<rparr>
                else Inr self)"

text \<open>\<^verbatim>\<open>Decimal.__mul__\<close> on finite operands.\<close>

definition dec_mul :: "decimal \<Rightarrow> decimal \<Rightarrow> error + decimal" where
  "dec_mul self other =
     (let resultsign = (dec_sign self \<noteq> dec_sign other);
          resultexp = dec_exp self + dec_exp other
      in if dec_int self = 0 \<or> dec_int other = 0
         then dec_fix \<lparr>dec_sign = resultsign, dec_int = 0, dec_exp = resultexp\<rparr>
         else if dec_int self = 1
         then dec_fix \<lparr>dec_sign = resultsign, dec_int = dec_int other, dec_exp = resultexp\<rparr>
         else if dec_int other = 1
         then dec_fix \<lparr>dec_sign = resultsign, dec_int = dec_int self, dec_exp = resultexp\<rparr>
         else dec_fix \<lparr>dec_sign = resultsign, dec_int = dec_int self * dec_int other,
                       dec_exp = resultexp\<rparr>)"

text \<open>
  The loop of \<^verbatim>\<open>Decimal.__truediv__\<close> that brings the exponent of an exact quotient
  as close to the ideal exponent as the trailing zeros of the coefficient allow.
\<close>

function strip_zeros :: "int \<Rightarrow> nat \<Rightarrow> int \<Rightarrow> nat \<times> int" where
  "strip_zeros ideal_exp coeff e =
     (if e < ideal_exp \<and> coeff mod 10 = 0
      then strip_zeros ideal_exp (coeff div 10) (e + 1)
      else (coeff, e))"
  by pat_completeness auto
termination
  by (relation "measure (\<lambda>(ideal_exp, coeff, e). nat (ideal_exp - e))") auto

declare strip_zeros.simps [simp del]

text \<open>\<^verbatim>\<open>Decimal.__truediv__\<close> on finite operands.\<close>

definition dec_truediv :: "decimal \<Rightarrow> decimal \<Rightarrow> error + decimal" where
  "dec_truediv self other =
     (let sign = (dec_sign self \<noteq> dec_sign other)
      in if dec_int other = 0
         then (if dec_int self = 0 then Inl (DivisionUndefined ''0 / 0'')
               else Inl (DivisionByZero ''x / 0''))
         else if dec_int self = 0
         then dec_fix \<lparr>dec_sign = sign, dec_int = 0, dec_exp = dec_exp self - dec_exp other\<rparr>
         else
           let shift = int (ndigits (dec_int other)) - int (ndigits (dec_int self))
                         + context_prec + 1;
               e = dec_exp self - dec_exp other - shift;
               num = (if shift \<ge> 0 then dec_int self * 10 ^ nat shift else dec_int self);
               den = (if shift \<ge> 0 then dec_int other else dec_int other * 10 ^ nat (- shift));
               coeff = num div den;
               remainder = num mod den;
               (coeff, e) =
                 (if remainder \<noteq> 0
                  then (if coeff mod 5 = 0 then coeff + 1 else coeff, e)
                  else strip_zeros (dec_exp self - dec_exp other) coeff e)
           in dec_fix \<lparr>dec_sign = sign, dec_int = coeff, dec_exp = e\<rparr>)"

text \<open>\<^verbatim>\<open>Decimal(n)\<close> of an integer, also the conversion of an \<^verbatim>\<open>int\<close> operand.\<close>

definition Decimal :: "int \<Rightarrow> decimal" where
  "Decimal n = \<lparr>dec_sign = (n < 0), dec_int = nat \<bar>n\<bar>, dec_exp = 0\<rparr>"

subsection \<open>Value objects\<close>

text \<open>
  pydantic validates the fields of a model in the order they are declared, hands each
  validator the fields that have passed so far, collects the message of every field that
  fails, and raises one \<^verbatim>\<open>ValidationError\<close> at the end if there is any.
\<close>

record date_range =
  check_in :: date
  check_out :: date

definition check_in_not_past :: "clock \<Rightarrow> date \<Rightarrow> string list" where
  "check_in_not_past clk v =
     (if v < today clk then [''Check-in date cannot be in the past''] else [])"

definition check_out_after_check_in :: "date option \<Rightarrow> date \<Rightarrow> string list" where
  \<comment> \<open>the first argument is \<^verbatim>\<open>values.get('check_in')\<close>: absent when that field failed\<close>
  "check_out_after_check_in values_check_in v =
     (case values_check_in of
        None \<Rightarrow> []
      | Some ci \<Rightarrow> if v \<le> ci then [''Check-out must be after check-in''] else [])"

definition DateRange :: "clock \<Rightarrow> date \<Rightarrow> date \<Rightarrow> error + date_range" where
  "DateRange clk ci co =
     (let e1 = check_in_not_past clk ci;
          e2 = check_out_after_check_in (if e1 = [] then Some ci else None) co
      in validated (e1 @ e2) \<lparr>check_in = ci, check_out = co\<rparr>)"

definition nights :: "date_range \<Rightarrow> int" where
  "nights self = days (date_sub (check_out self) (check_in self))"

record money =
  amount :: decimal
  currency :: string

definition Money :: "decimal \<Rightarrow> string \<Rightarrow> error + money" where
  "Money a c =
     validated (if dec_value a \<ge> 0 then [] else [''ensure this value is greater than or equal to 0''])
       \<lparr>amount = a, currency = c\<rparr>"

record guest_count =
  adults :: int
  children :: int

definition GuestCount :: "int \<Rightarrow> int \<Rightarrow> error + guest_count" where
  "GuestCount a c =
     validated
       ((if a < 1 then [''ensure this value is greater than or equal to 1'']
         else if a > 10 then [''ensure this value is less than or equal to 10''] else []) @
        (if c < 0 then [''ensure this value is greater than or equal to 0'']
         else if c > 10 then [''ensure this value is less than or equal to 10''] else []))
       \<lparr>adults = a, children = c\<rparr>"

definition total_guests :: "guest_count \<Rightarrow> int" where
  "total_guests self = adults self + children self"

record cancellation_policy =
  policy_name :: string
  refund_percentage :: decimal
  deadline_hours :: int

definition CancellationPolicy :: "string \<Rightarrow> decimal \<Rightarrow> int \<Rightarrow> error + cancellation_policy" where
  "CancellationPolicy n p h =
     validated
       ((if dec_value p < 0 then [''ensure this value is greater than or equal to 0'']
         else if dec_value p > 100 then [''ensure this value is less than or equal to 100''] else []) @
        (if h < 0 then [''ensure this value is greater than or equal to 0''] else []))
       \<lparr>policy_name = n, refund_percentage = p, deadline_hours = h\<rparr>"

definition calculate_refund :: "cancellation_policy \<Rightarrow> money \<Rightarrow> date \<Rightarrow> date \<Rightarrow> error + money" where
  "calculate_refund self total_amount cancellation_date check_in_date =
     (let hours_until_checkin = days (date_sub check_in_date cancellation_date) * 24;
          refund_amount =
            (if hours_until_checkin \<ge> deadline_hours self
             then (case dec_truediv (refund_percentage self) (Decimal 100) of
                     Inl e \<Rightarrow> Inl e
                   | Inr q \<Rightarrow> dec_mul (amount total_amount) q)
             else Inr (Decimal 0))
      in case refund_amount of
           Inl e \<Rightarrow> Inl e
         | Inr a \<Rightarrow> Money a (currency total_amount))"

subsection \<open>Reservation\<close>

datatype reservation_status = PENDING | CONFIRMED | CHECKED_IN | CHECKED_OUT | CANCELLED | NO_SHOW

datatype booking_source = ONLINE | PHONE | WALK_IN | PARTNER

datatype request_type =
  EARLY_CHECKIN | LATE_CHECKOUT | HIGH_FLOOR | LOW_FLOOR | SMOKING | NON_SMOKING
  | SPECIAL_AMENITIES | OTHER

record special_request =
  request_id :: uuid
  request_type :: request_type
  description :: string
  fulfilled :: bool
  notes_sr :: "string option"
  created_at_sr :: datetime

record reservation =
  reservation_id :: uuid
  confirmation_code :: string
  guest_id :: uuid
  room_type_id :: string
  date_range :: date_range
  guest_count :: guest_count
  total_amount :: money
  cancellation_policy :: cancellation_policy
  status :: reservation_status
  booking_source :: booking_source
  special_requests :: "special_request list"
  created_at :: datetime
  modified_at :: datetime
  created_by :: string
  version :: int

definition validate_date_range :: "date_range \<Rightarrow> string list" where
  "validate_date_range v =
     (if nights v < 1 then [''Reservation must be at least 1 night'']
      else if nights v > 30 then [''Maximum stay is 30 nights'']
      else [])"

definition validate_guest_count :: "guest_count \<Rightarrow> string list" where
  "validate_guest_count v =
     (if adults v < 1 then [''At least 1 adult required'']
      else if children v < 0 then [''Children count cannot be negative'']
      else [])"

definition validate_amount :: "money \<Rightarrow> string list" where
  "validate_amount v =
     (if dec_value (amount v) \<le> 0 then [''Total amount must be greater than 0''] else [])"

text \<open>
  \<^verbatim>\<open>Reservation.create\<close>: the class constructor with status PENDING. The fresh
  \<^verbatim>\<open>uuid4()\<close> of the identity is an argument.
\<close>

definition create :: "clock \<Rightarrow> uuid \<Rightarrow> uuid \<Rightarrow> string \<Rightarrow> date_range \<Rightarrow> guest_count \<Rightarrow> money
    \<Rightarrow> cancellation_policy \<Rightarrow> booking_source \<Rightarrow> string \<Rightarrow> string \<Rightarrow> error + reservation" where
  "create clk new_id gid rtid dr gc ta cp bs code creator =
     validated (validate_date_range dr @ validate_guest_count gc @ validate_amount ta)
       \<lparr>reservation_id = new_id, confirmation_code = code, guest_id = gid, room_type_id = rtid,
        date_range = dr, guest_count = gc, total_amount = ta, cancellation_policy = cp,
        status = PENDING, booking_source = bs, special_requests = [],
        created_at = utcnow clk, modified_at = utcnow clk, created_by = creator, version = 1\<rparr>"

definition is_modifiable :: "clock \<Rightarrow> reservation \<Rightarrow> bool" where
  "is_modifiable clk self =
     (status self \<in> set [PENDING, CONFIRMED] \<and>
      check_in (date_range self) \<ge> date_add (today clk) (timedelta_days 1))"

definition is_cancellable :: "reservation \<Rightarrow> bool" where
  "is_cancellable self = (status self \<in> set [PENDING, CONFIRMED])"

definition calculate_refund_res :: "reservation \<Rightarrow> date \<Rightarrow> error + money" where
  "calculate_refund_res self cancellation_date =
     calculate_refund (cancellation_policy self) (total_amount self) cancellation_date
       (check_in (date_range self))"

definition get_nights :: "reservation \<Rightarrow> int" where
  "get_nights self = nights (date_range self)"

text \<open>
  \<^verbatim>\<open>modify\<close>: an argument that is \<^verbatim>\<open>None\<close> leaves its field alone; so does an
  empty string for the room type, which Python takes as false. The assignments are plain
  attribute assignments: the model's configuration does not turn on validation of
  assignments, so no validator runs.
\<close>

definition modify :: "clock \<Rightarrow> date_range option \<Rightarrow> guest_count option \<Rightarrow> string option
    \<Rightarrow> money option \<Rightarrow> reservation \<Rightarrow> (error + unit) \<times> reservation" where
  "modify clk new_date_range new_guest_count new_room_type_id new_total_amount self =
     (if \<not> is_modifiable clk self
      then (Inl (ValueError ''Reservation cannot be modified in current state''), self)
      else
        let s1 = (case new_date_range of None \<Rightarrow> self | Some d \<Rightarrow> self\<lparr>date_range := d\<rparr>);
            s2 = (case new_guest_count of None \<Rightarrow> s1 | Some g \<Rightarrow> s1\<lparr>guest_count := g\<rparr>);
            s3 = (case new_room_type_id of
                    None \<Rightarrow> s2
                  | Some t \<Rightarrow> if t = [] then s2 else s2\<lparr>room_type_id := t\<rparr>);
            s4 = (case new_total_amount of None \<Rightarrow> s3 | Some m \<Rightarrow> s3\<lparr>total_amount := m\<rparr>)
        in (Inr (), s4\<lparr>modified_at := utcnow clk, version := version s4 + 1\<rparr>))"

definition add_special_request :: "clock \<Rightarrow> uuid \<Rightarrow> request_type \<Rightarrow> string \<Rightarrow> reservation
    \<Rightarrow> (error + unit) \<times> reservation" where
  "add_special_request clk new_id rt descr self =
     (let special_request =
            \<lparr>request_id = new_id, request_type = rt, description = descr,
             fulfilled = False, notes_sr = None, created_at_sr = utcnow clk\<rparr>
      in (Inr (),
          self\<lparr>special_requests := special_requests self @ [special_request],
               modified_at := utcnow clk\<rparr>))"

definition confirm :: "clock \<Rightarrow> bool \<Rightarrow> reservation \<Rightarrow> (error + unit) \<times> reservation" where
  "confirm clk payment_confirmed self =
     (if status self \<noteq> PENDING
      then (Inl (ValueError ''Can only confirm PENDING reservations''), self)
      else if \<not> payment_confirmed
      then (Inl (ValueError ''Payment must be confirmed''), self)
      else (Inr (),
            self\<lparr>status := CONFIRMED, modified_at := utcnow clk, version := version self + 1\<rparr>))"

definition check_in_res :: "clock \<Rightarrow> string \<Rightarrow> reservation \<Rightarrow> (error + unit) \<times> reservation" where
  "check_in_res clk room_number self =
     (if status self \<noteq> CONFIRMED
      then (Inl (ValueError ''Can only check in CONFIRMED reservations''), self)
      else if date_of (utcnow clk) < check_in (date_range self)
      then (Inl (ValueError ''Cannot check in before check-in date''), self)
      else (Inr (),
            self\<lparr>status := CHECKED_IN, modified_at := utcnow clk, version := version self + 1\<rparr>))"

definition check_out_res :: "clock \<Rightarrow> reservation \<Rightarrow> (error + money) \<times> reservation" where
  "check_out_res clk self =
     (if status self \<noteq> CHECKED_IN
      then (Inl (ValueError ''Can only check out CHECKED_IN reservations''), self)
      else
        let s = self\<lparr>status := CHECKED_OUT, modified_at := utcnow clk, version := version self + 1\<rparr>
        in (Inr (total_amount s), s))"

definition cancel :: "clock \<Rightarrow> string \<Rightarrow> reservation \<Rightarrow> (error + money) \<times> reservation" where
  "cancel clk reason self =
     (if \<not> is_cancellable self
      then (Inl (ValueError ''Reservation cannot be cancelled in current state''), self)
      else
        case calculate_refund_res self (today clk) of
          Inl e \<Rightarrow> (Inl e, self)
        | Inr refund_amount \<Rightarrow>
            (Inr refund_amount,
             self\<lparr>status := CANCELLED, modified_at := utcnow clk, version := version self + 1\<rparr>))"

definition mark_no_show :: "clock \<Rightarrow> reservation \<Rightarrow> (error + unit) \<times> reservation" where
  "mark_no_show clk self =
     (if status self \<notin> set [CONFIRMED, PENDING]
      then (Inl (ValueError ''Can only mark as no-show for PENDING or CONFIRMED reservations''), self)
      else (Inr (),
            self\<lparr>status := NO_SHOW, modified_at := utcnow clk, version := version self + 1\<rparr>))"

text \<open>The invariants that the validators of the class state.\<close>

definition reservation_invariants :: "reservation \<Rightarrow> bool" where
  "reservation_invariants r =
     (1 \<le> nights (date_range r) \<and> nights (date_range r) \<le> 30 \<and>
      1 \<le> adults (guest_count r) \<and> 0 < dec_value (amount (total_amount r)))"

subsection \<open>Waitlist\<close>

datatype priority = LOW | MEDIUM | HIGH | URGENT

fun priority_value :: "priority \<Rightarrow> int" where
  "priority_value LOW = 1"
| "priority_value MEDIUM = 2"
| "priority_value HIGH = 3"
| "priority_value URGENT = 4"

datatype waitlist_status = ACTIVE | CONVERTED | EXPIRED | CANCELLED_wl

record waitlist_entry =
  waitlist_id :: uuid
  guest_id_wl :: uuid
  room_type_id_wl :: string
  requested_dates :: date_range
  guest_count_wl :: guest_count
  priority :: priority
  status_wl :: waitlist_status
  created_at_wl :: datetime
  expires_at :: datetime
  notified_at :: "datetime option"
  converted_reservation_id :: "uuid option"

text \<open>
  The \<^verbatim>\<open>values\<close> dictionary that pydantic hands to a validator: the fields declared
  before the one under validation that have passed, by name.
\<close>

datatype field_value =
  V_uuid uuid | V_str string | V_dates date_range | V_guests guest_count
  | V_priority priority | V_status waitlist_status | V_datetime datetime

type_synonym field_values = "string \<rightharpoonup> field_value"

definition validate_expires_at :: "field_values \<Rightarrow> datetime \<Rightarrow> string list" where
  "validate_expires_at values v =
     (case values ''created_at'' of
        Some (V_datetime c) \<Rightarrow> if v \<le> c then [''expires_at must be after created_at''] else []
      | _ \<Rightarrow> [])"

definition validate_guest_count_wl :: "guest_count \<Rightarrow> string list" where
  "validate_guest_count_wl v = (if adults v < 1 then [''At least 1 adult required''] else [])"

definition validate_status_for_conversion :: "field_values \<Rightarrow> waitlist_status \<Rightarrow> string list" where
  "validate_status_for_conversion values v =
     (case values ''converted_reservation_id'' of
        Some (V_uuid _) \<Rightarrow>
          if v \<noteq> CONVERTED then [''Status must be CONVERTED when reservation is converted'']
          else []
      | _ \<Rightarrow> [])"

text \<open>
  The constructor, with every field given. The fields are validated in the order of their
  declaration, so \<^verbatim>\<open>status\<close> is validated when \<^verbatim>\<open>values\<close> holds the six fields
  declared before it; \<^verbatim>\<open>converted_reservation_id\<close>, declared last, is not among them.
\<close>

definition WaitlistEntry :: "uuid \<Rightarrow> uuid \<Rightarrow> string \<Rightarrow> date_range \<Rightarrow> guest_count \<Rightarrow> priority
    \<Rightarrow> waitlist_status \<Rightarrow> datetime \<Rightarrow> datetime \<Rightarrow> datetime option \<Rightarrow> uuid option
    \<Rightarrow> error + waitlist_entry" where
  "WaitlistEntry wid gid rtid dates gc prio st created expires notified converted =
     (let values0 = [''waitlist_id'' \<mapsto> V_uuid wid, ''guest_id'' \<mapsto> V_uuid gid,
                     ''room_type_id'' \<mapsto> V_str rtid, ''requested_dates'' \<mapsto> V_dates dates];
          e_guests = validate_guest_count_wl gc;
          values1 = (if e_guests = [] then values0(''guest_count'' \<mapsto> V_guests gc) else values0);
          values2 = values1(''priority'' \<mapsto> V_priority prio);
          e_status = validate_status_for_conversion values2 st;
          values3 = (if e_status = [] then values2(''status'' \<mapsto> V_status st) else values2);
          values4 = values3(''created_at'' \<mapsto> V_datetime created);
          e_expires = validate_expires_at values4 expires
      in validated (e_guests @ e_status @ e_expires)
           \<lparr>waitlist_id = wid, guest_id_wl = gid, room_type_id_wl = rtid,
            requested_dates = dates, guest_count_wl = gc, priority = prio, status_wl = st,
            created_at_wl = created, expires_at = expires, notified_at = notified,
            converted_reservation_id = converted\<rparr>)"

definition add_to_waitlist :: "clock \<Rightarrow> uuid \<Rightarrow> uuid \<Rightarrow> string \<Rightarrow> date_range \<Rightarrow> guest_count
    \<Rightarrow> priority \<Rightarrow> error + waitlist_entry" where
  "add_to_waitlist clk new_id gid rtid dates gc prio =
     (let created = utcnow clk;
          expires = datetime_add created (timedelta_days 14)
      in WaitlistEntry new_id gid rtid dates gc prio ACTIVE created expires None None)"

definition convert_to_reservation :: "uuid \<Rightarrow> waitlist_entry \<Rightarrow> (error + unit) \<times> waitlist_entry" where
  "convert_to_reservation rid self =
     (if status_wl self \<noteq> ACTIVE
      then (Inl (ValueError ''Can only convert ACTIVE entries''), self)
      else (Inr (), self\<lparr>status_wl := CONVERTED, converted_reservation_id := Some rid\<rparr>))"

definition expire :: "waitlist_entry \<Rightarrow> waitlist_entry" where
  "expire self = (if status_wl self = ACTIVE then self\<lparr>status_wl := EXPIRED\<rparr> else self)"

definition extend_expiry :: "int \<Rightarrow> waitlist_entry \<Rightarrow> waitlist_entry" where
  "extend_expiry additional_days self =
     (if status_wl self = ACTIVE
      then self\<lparr>expires_at := datetime_add (expires_at self) (timedelta_days additional_days)\<rparr>
      else self)"

definition upgrade_priority :: "priority \<Rightarrow> waitlist_entry \<Rightarrow> waitlist_entry" where
  "upgrade_priority new_priority self =
     (if priority_value new_priority > priority_value (priority self)
      then self\<lparr>priority := new_priority\<rparr>
      else self)"

definition mark_notified :: "clock \<Rightarrow> waitlist_entry \<Rightarrow> waitlist_entry" where
  "mark_notified clk self = self\<lparr>notified_at := Some (utcnow clk)\<rparr>"

definition should_notify_again :: "clock \<Rightarrow> waitlist_entry \<Rightarrow> bool" where
  "should_notify_again clk self =
     (case notified_at self of
        None \<Rightarrow> True
      | Some n \<Rightarrow> days (datetime_sub (utcnow clk) n) \<ge> 3)"

definition calculate_priority_score :: "clock \<Rightarrow> waitlist_entry \<Rightarrow> int" where
  "calculate_priority_score clk self =
     (let score = priority_value (priority self) * 100;
          days_waiting = days (datetime_sub (utcnow clk) (created_at_wl self));
          score = score + days_waiting * 2;
          days_to_expiry = days (datetime_sub (expires_at self) (utcnow clk));
          score = score + (14 - days_to_expiry) * 5
      in score)"

text \<open>The invariant of the entry: a reservation id is recorded exactly on a converted entry.\<close>

definition conversion_invariant :: "waitlist_entry \<Rightarrow> bool" where
  "conversion_invariant e = ((converted_reservation_id e \<noteq> None) = (status_wl e = CONVERTED))"

subsection \<open>Sequences of calls on a Reservation\<close>

text \<open>
  A call of one of the seven mutating methods, with its arguments. \<open>apply_op\<close> gives the
  reservation as the call leaves it, whether the call returned or raised; \<open>run\<close> makes the
  calls of a list in order, each with its own reading of the clock.
\<close>

datatype res_op =
  Modify "date_range option" "guest_count option" "string option" "money option"
  | Add_special_request uuid request_type string
  | Confirm bool
  | Check_in string
  | Check_out
  | Cancel string
  | Mark_no_show

fun apply_op :: "clock \<times> res_op \<Rightarrow> reservation \<Rightarrow> reservation" where
  "apply_op (clk, Modify d g t m) r = snd (modify clk d g t m r)"
| "apply_op (clk, Add_special_request i rt descr) r = snd (add_special_request clk i rt descr r)"
| "apply_op (clk, Confirm p) r = snd (confirm clk p r)"
| "apply_op (clk, Check_in room) r = snd (check_in_res clk room r)"
| "apply_op (clk, Check_out) r = snd (check_out_res clk r)"
| "apply_op (clk, Cancel reason) r = snd (cancel clk reason r)"
| "apply_op (clk, Mark_no_show) r = snd (mark_no_show clk r)"

fun run :: "reservation \<Rightarrow> (clock \<times> res_op) list \<Rightarrow> reservation" where
  "run r [] = r"
| "run r (c # cs) = run (apply_op c r) cs"

subsection \<open>Sequences of calls on a WaitlistEntry\<close>

datatype wl_op =
  Convert_to_reservation uuid
  | Expire
  | Extend_expiry int
  | Upgrade_priority priority
  | Mark_notified

fun apply_wl_op :: "clock \<times> wl_op \<Rightarrow> waitlist_entry \<Rightarrow> waitlist_entry" where
  "apply_wl_op (clk, Convert_to_reservation rid) e = snd (convert_to_reservation rid e)"
| "apply_wl_op (clk, Expire) e = expire e"
| "apply_wl_op (clk, Extend_expiry n) e = extend_expiry n e"
| "apply_wl_op (clk, Upgrade_priority p) e = upgrade_priority p e"
| "apply_wl_op (clk, Mark_notified) e = mark_notified clk e"

fun run_wl :: "waitlist_entry \<Rightarrow> (clock \<times> wl_op) list \<Rightarrow> waitlist_entry" where
  "run_wl e [] = e"
| "run_wl e (c # cs) = run_wl (apply_wl_op c e) cs"

subsection \<open>The priority score in the words of the specification\<close>

text \<open>
  The score with day counts that are truncated, that is rounded towards zero, to compare
  with \<open>calculate_priority_score\<close>.
\<close>

definition truncated_days :: "int \<Rightarrow> int" where
  "truncated_days us = sgn us * (\<bar>us\<bar> div usec_per_day)"

definition spec_priority_score :: "clock \<Rightarrow> waitlist_entry \<Rightarrow> int" where
  "spec_priority_score clk e =
     priority_value (priority e) * 100
     + truncated_days (utcnow clk - created_at_wl e) * 2
     + (14 - truncated_days (expires_at e - utcnow clk)) * 5"

subsection \<open>Concrete objects\<close>

text \<open>A ledger of ten rooms without overbooking, as \<open>create_availability\<close> makes it.\<close>

definition plain_day :: availability where
  "plain_day =
     \<lparr>room_type_id_av = ''DELUXE_001'', availability_date = 739000,
      total_rooms = 10, reserved_rooms = 0, blocked_rooms = 0,
      overbooking_threshold = 0, last_updated = utcnow noon, version_av = 1\<rparr>"

text \<open>The same ledger with eight rooms reserved and five blocked.\<close>

definition overfull_day :: availability where
  "overfull_day =
     \<lparr>room_type_id_av = ''DELUXE_001'', availability_date = 739000,
      total_rooms = 10, reserved_rooms = 8, blocked_rooms = 5,
      overbooking_threshold = 0, last_updated = utcnow noon, version_av = 3\<rparr>"

text \<open>The policy that \<^verbatim>\<open>ReservationService.create_reservation\<close> attaches.\<close>

definition standard_policy :: cancellation_policy where
  "standard_policy =
     \<lparr>policy_name = ''Standard'', refund_percentage = Decimal 80, deadline_hours = 24\<rparr>"

text \<open>
  An amount of \<^verbatim>\<open>Decimal('1000000.01')\<close> and a policy that refunds
  \<^verbatim>\<open>Decimal('33.33333333333333333333')\<close> percent.
\<close>

definition million_and_a_cent :: money where
  "million_and_a_cent =
     \<lparr>amount = \<lparr>dec_sign = False, dec_int = 100000001, dec_exp = - 2\<rparr>, currency = ''IDR''\<rparr>"

definition third_policy :: cancellation_policy where
  "third_policy =
     \<lparr>policy_name = ''Third'',
      refund_percentage = \<lparr>dec_sign = False, dec_int = 3333333333333333333333, dec_exp = - 20\<rparr>,
      deadline_hours = 24\<rparr>"

definition two_nights :: date_range where
  "two_nights = \<lparr>check_in = 739010, check_out = 739012\<rparr>"

definition thirty_one_nights :: date_range where
  "thirty_one_nights = \<lparr>check_in = 739010, check_out = 739041\<rparr>"

definition two_adults :: guest_count where
  "two_adults = \<lparr>adults = 2, children = 0\<rparr>"

definition two_million :: money where
  "two_million = \<lparr>amount = Decimal 2000000, currency = ''IDR''\<rparr>"

text \<open>A booking of two nights, ten days ahead of \<open>noon\<close>, as \<open>create\<close> makes it.\<close>

definition booking :: reservation where
  "booking =
     \<lparr>reservation_id = 1, confirmation_code = ''AB12CD34'', guest_id = 7,
      room_type_id = ''DELUXE_001'', date_range = two_nights, guest_count = two_adults,
      total_amount = two_million, cancellation_policy = standard_policy, status = PENDING,
      booking_source = ONLINE, special_requests = [], created_at = utcnow noon,
      modified_at = utcnow noon, created_by = ''SYSTEM'', version = 1\<rparr>"

text \<open>Noon of the day of arrival of \<open>booking\<close>, and noon of the day before.\<close>

definition arrival_noon :: clock where
  "arrival_noon = \<lparr>utcnow = 739010 * usec_per_day + 43200 * usec_per_second, today = 739010\<rparr>"

definition eve_noon :: clock where
  "eve_noon = \<lparr>utcnow = 739009 * usec_per_day + 43200 * usec_per_second, today = 739009\<rparr>"

text \<open>A waitlist entry made at \<open>noon\<close>, and the clock one hour after its expiry.\<close>

definition waiting :: waitlist_entry where
  "waiting =
     \<lparr>waitlist_id = 3, guest_id_wl = 7, room_type_id_wl = ''DELUXE_001'',
      requested_dates = two_nights, guest_count_wl = two_adults, priority = MEDIUM,
      status_wl = ACTIVE, created_at_wl = utcnow noon,
      expires_at = datetime_add (utcnow noon) (timedelta_days 14),
      notified_at = None, converted_reservation_id = None\<rparr>"

definition hour_after_expiry :: clock where
  "hour_after_expiry =
     \<lparr>utcnow = 739014 * usec_per_day + 46800 * usec_per_second, today = 739014\<rparr>"

definition third_day :: clock where
  "third_day = \<lparr>utcnow = 739003 * usec_per_day + 50000 * usec_per_second, today = 739003\<rparr>"

section \<open>Properties\<close>

lemmas time_defs = usec_per_day_def usec_per_second_def timedelta_of_usec_def timedelta_days_def
  usec_of_timedelta_def datetime_sub_def datetime_add_def date_sub_def date_add_def date_of_def

subsection \<open>Availability: the capacity invariant\<close>

text \<open>
  Three of the four mutators keep \<open>reserved_rooms + blocked_rooms \<le> total_rooms +
  overbooking_threshold\<close>: \<open>reserve_rooms\<close> for any count when the threshold is not
  negative, \<open>release_rooms\<close> and \<open>unblock_rooms\<close> for a count that is not negative.
\<close>

lemma reserve_rooms_keeps_capacity:
  "0 \<le> overbooking_threshold a \<Longrightarrow> capacity_invariant a
     \<Longrightarrow> capacity_invariant (snd (reserve_rooms clk c a))"
  by (auto simp: reserve_rooms_def check_availability_def available_rooms_def capacity_invariant_def)

lemma release_rooms_keeps_capacity:
  "0 \<le> c \<Longrightarrow> capacity_invariant a \<Longrightarrow> capacity_invariant (snd (release_rooms clk c a))"
  by (auto simp: release_rooms_def capacity_invariant_def)

lemma unblock_rooms_keeps_capacity:
  "0 \<le> c \<Longrightarrow> capacity_invariant a \<Longrightarrow> capacity_invariant (snd (unblock_rooms clk c a))"
  by (auto simp: unblock_rooms_def capacity_invariant_def)

text \<open>
  C1. The capacity invariant is to hold after every successful call of the four mutators.
  \<open>block_rooms\<close> compares \<open>blocked_rooms + count\<close> with \<open>total_rooms\<close> alone and does
  not look at \<open>reserved_rooms\<close>. On a fresh ledger of ten rooms without overbooking,
  reserving eight rooms and then blocking five both succeed, and leave thirteen rooms
  reserved or blocked against a capacity of ten: the invariant held before the call of
  \<open>block_rooms\<close> and does not hold after it.
\<close>

theorem block_rooms_breaks_capacity:
  "create_availability noon ''DELUXE_001'' 739000 10 0 = Inr plain_day
   \<and> capacity_invariant plain_day
   \<and> fst (reserve_rooms noon 8 plain_day) = Inr ()
   \<and> capacity_invariant (snd (reserve_rooms noon 8 plain_day))
   \<and> fst (block_rooms noon 5 ''maintenance'' (snd (reserve_rooms noon 8 plain_day))) = Inr ()
   \<and> snd (block_rooms noon 5 ''maintenance'' (snd (reserve_rooms noon 8 plain_day))) = overfull_day
   \<and> reserved_rooms overfull_day + blocked_rooms overfull_day = 13
   \<and> total_rooms overfull_day + overbooking_threshold overfull_day = 10
   \<and> \<not> capacity_invariant overfull_day"
  by (simp add: create_availability_def Availability_def ge_constraint_def validate_capacity_def
      validated_def plain_day_def overfull_day_def noon_def reserve_rooms_def block_rooms_def
      check_availability_def available_rooms_def capacity_invariant_def)

subsection \<open>Availability: admission test and reservation\<close>

text \<open>
  C3. \<open>check_availability count\<close> is true exactly when \<open>available_rooms \<ge> count\<close> or
  \<open>available_rooms + overbooking_threshold \<ge> count\<close>. \<open>reserve_rooms count\<close> raises
  the "Insufficient availability" error exactly when that test is false, and otherwise
  adds \<open>count\<close> to \<open>reserved_rooms\<close> and bumps \<open>version\<close> by one. From ten rooms with
  an overbooking threshold of two and nothing reserved, reserving eleven succeeds and
  leaves \<open>available_rooms = -1\<close>; reserving two more then fails.
\<close>

theorem reserve_rooms_admission:
  "(check_availability a c =
      (available_rooms a \<ge> c \<or> available_rooms a + overbooking_threshold a \<ge> c))
   \<and> fst (reserve_rooms clk c a) =
      (if check_availability a c then Inr () else Inl (ValueError ''Insufficient availability''))
   \<and> reserved_rooms (snd (reserve_rooms clk c a)) =
      (if check_availability a c then reserved_rooms a + c else reserved_rooms a)
   \<and> version_av (snd (reserve_rooms clk c a)) =
      (if check_availability a c then version_av a + 1 else version_av a)
   \<and> fst (reserve_rooms noon 11 deluxe_day) = Inr ()
   \<and> available_rooms (snd (reserve_rooms noon 11 deluxe_day)) = - 1
   \<and> fst (reserve_rooms noon 2 (snd (reserve_rooms noon 11 deluxe_day)))
      = Inl (ValueError ''Insufficient availability'')"
  by (simp add: reserve_rooms_def check_availability_def available_rooms_def deluxe_day_def)

subsection \<open>Availability: counts that are not positive\<close>

text \<open>
  C10, as stated: for every state and every count \<open>\<le> 0\<close> the admission test is true. It
  is false on the ledger with eight rooms reserved and five blocked out of ten, which the
  calls \<open>reserve_rooms 8\<close> and \<open>block_rooms 5\<close> produce from a fresh ledger: there
  \<open>available_rooms = -3\<close>, the test fails for the count \<open>0\<close> and \<open>reserve_rooms 0\<close>
  raises.
\<close>

theorem check_availability_nonpositive_counterexample:
  "snd (block_rooms noon 5 ''maintenance'' (snd (reserve_rooms noon 8 plain_day))) = overfull_day
   \<and> (0::int) \<le> 0
   \<and> \<not> check_availability overfull_day 0
   \<and> fst (reserve_rooms noon 0 overfull_day) = Inl (ValueError ''Insufficient availability'')"
  by (simp add: plain_day_def overfull_day_def noon_def reserve_rooms_def block_rooms_def
      check_availability_def available_rooms_def)

text \<open>
  C10, amended: on every state that satisfies the capacity invariant, and for every count
  \<open>\<le> 0\<close>, the admission test is true and \<open>reserve_rooms\<close> succeeds, adds the count to
  \<open>reserved_rooms\<close> and bumps \<open>version\<close> by one; \<open>reserved_rooms\<close> does not grow, and
  falls below zero when the count is below \<open>- reserved_rooms\<close>. The other three mutators
  accept such a count as well, on counters that are within their bounds.
\<close>

theorem nonpositive_count_admitted:
  "(capacity_invariant a \<and> c \<le> 0 \<longrightarrow>
      check_availability a c
      \<and> reserve_rooms clk c a =
          (Inr (), a\<lparr>reserved_rooms := reserved_rooms a + c, last_updated := utcnow clk,
                     version_av := version_av a + 1\<rparr>)
      \<and> reserved_rooms (snd (reserve_rooms clk c a)) \<le> reserved_rooms a
      \<and> (c < - reserved_rooms a \<longrightarrow> reserved_rooms (snd (reserve_rooms clk c a)) < 0))
   \<and> (c \<le> 0 \<and> 0 \<le> reserved_rooms a \<longrightarrow> fst (release_rooms clk c a) = Inr ())
   \<and> (c \<le> 0 \<and> blocked_rooms a \<le> total_rooms a \<longrightarrow> fst (block_rooms clk c why a) = Inr ())
   \<and> (c \<le> 0 \<and> 0 \<le> blocked_rooms a \<longrightarrow> fst (unblock_rooms clk c a) = Inr ())"
  by (auto simp: capacity_invariant_def check_availability_def available_rooms_def
      reserve_rooms_def release_rooms_def block_rooms_def unblock_rooms_def)

theorem nonpositive_count_admitted_witness:
  "capacity_invariant deluxe_day \<and> (- 3::int) \<le> 0 \<and> - 3 < - reserved_rooms deluxe_day
   \<and> 0 \<le> reserved_rooms deluxe_day \<and> blocked_rooms deluxe_day \<le> total_rooms deluxe_day
   \<and> 0 \<le> blocked_rooms deluxe_day
   \<and> check_availability deluxe_day (- 3)
   \<and> fst (reserve_rooms noon (- 3) deluxe_day) = Inr ()
   \<and> reserved_rooms (snd (reserve_rooms noon (- 3) deluxe_day)) = - 3
   \<and> version_av (snd (reserve_rooms noon (- 3) deluxe_day)) = 2
   \<and> fst (release_rooms noon (- 3) deluxe_day) = Inr ()
   \<and> fst (block_rooms noon (- 3) ''event'' deluxe_day) = Inr ()
   \<and> fst (unblock_rooms noon (- 3) deluxe_day) = Inr ()"
proof -
  have h: "capacity_invariant deluxe_day \<and> (- 3::int) \<le> 0 \<and> - 3 < - reserved_rooms deluxe_day
     \<and> 0 \<le> reserved_rooms deluxe_day \<and> blocked_rooms deluxe_day \<le> total_rooms deluxe_day
     \<and> 0 \<le> blocked_rooms deluxe_day"
    by (simp add: capacity_invariant_def deluxe_day_def)
  from nonpositive_count_admitted [of deluxe_day "- 3" noon "''event''"] h show ?thesis
    by (simp add: deluxe_day_def)
qed

subsection \<open>Decimal arithmetic within the precision of the context\<close>

text \<open>
  A product whose coefficient has at most 28 digits, and a quotient by 100 of a number
  whose coefficient has at most 28 digits, are exact when the exponents are in range.
\<close>

lemma ndigits_le: "0 < k \<Longrightarrow> n < 10 ^ k \<Longrightarrow> ndigits n \<le> k"
proof (induction k arbitrary: n)
  case 0
  then show ?case by simp
next
  case (Suc k)
  show ?case
  proof (cases "n < 10")
    case True
    then show ?thesis by (simp add: ndigits.simps)
  next
    case False
    with Suc.prems have k: "0 < k" by (cases k) simp_all
    from Suc.prems have "n div 10 < 10 ^ k" by (simp add: less_mult_imp_div_less mult.commute)
    with k Suc.IH have "ndigits (n div 10) \<le> k" by blast
    with False show ?thesis by (simp add: ndigits.simps)
  qed
qed

lemma strip_zeros_props:
  "strip_zeros ideal c e = (c', e') \<Longrightarrow>
     c' * 10 ^ nat (e' - e) = c \<and> e \<le> e' \<and> e' \<le> max e ideal"
proof (induction ideal c e rule: strip_zeros.induct)
  case (1 ideal c e)
  show ?case
  proof (cases "e < ideal \<and> c mod 10 = 0")
    case True
    with "1.prems" have s: "strip_zeros ideal (c div 10) (e + 1) = (c', e')"
      by (simp add: strip_zeros.simps [of ideal c e])
    from "1.IH" [OF True s] have ih: "c' * 10 ^ nat (e' - (e + 1)) = c div 10"
      "e + 1 \<le> e'" "e' \<le> max (e + 1) ideal" by simp_all
    from ih(2) have n: "nat (e' - e) = Suc (nat (e' - (e + 1)))" by simp
    from True have "c = 10 * (c div 10)" by presburger
    with ih(1) have "c' * 10 ^ nat (e' - e) = c" by (simp add: n)
    with ih True show ?thesis by simp
  next
    case False
    with "1.prems" have "c' = c" "e' = e" by (simp_all add: strip_zeros.simps [of ideal c e])
    then show ?thesis by simp
  qed
qed

lemma strip_zeros_shift:
  "e + int j \<le> ideal \<Longrightarrow> strip_zeros ideal (m * 10 ^ j) e = strip_zeros ideal m (e + int j)"
proof (induction j arbitrary: e)
  case 0
  then show ?case by simp
next
  case (Suc j)
  then have lt: "e < ideal" by simp
  have "strip_zeros ideal (m * 10 ^ Suc j) e
          = strip_zeros ideal ((m * 10 ^ Suc j) div 10) (e + 1)"
    using lt by (subst strip_zeros.simps) simp
  also have "(m * 10 ^ Suc j) div 10 = m * 10 ^ j" by simp
  also from Suc.prems have "strip_zeros ideal (m * 10 ^ j) (e + 1) = strip_zeros ideal m (e + 1 + int j)"
    by (intro Suc.IH) simp
  finally show ?case by (simp add: add.assoc)
qed

lemma dec_fix_unchanged:
  "dec_int d \<noteq> 0 \<Longrightarrow> dec_int d < 10 ^ 28 \<Longrightarrow> Etiny \<le> dec_exp d \<Longrightarrow> dec_exp d \<le> Etop
     \<Longrightarrow> dec_fix d = Inr d"
proof -
  assume a: "dec_int d \<noteq> 0" "dec_int d < 10 ^ 28" "Etiny \<le> dec_exp d" "dec_exp d \<le> Etop"
  from a(2) have "ndigits (dec_int d) \<le> 28" by (intro ndigits_le) simp_all
  with a show ?thesis
    by (simp add: dec_fix_def Let_def context_prec_def)
qed

lemma dec_fix_zero:
  "dec_int d = 0 \<Longrightarrow> dec_fix d = Inr (d\<lparr>dec_exp := min (max (dec_exp d) Etiny) Emax\<rparr>)"
  by (simp add: dec_fix_def)

lemma dec_value_zero: "dec_int d = 0 \<Longrightarrow> dec_value d = 0"
  by (simp add: dec_value_def)

lemma dec_mul_fix:
  "dec_mul x y = dec_fix \<lparr>dec_sign = (dec_sign x \<noteq> dec_sign y), dec_int = dec_int x * dec_int y,
                          dec_exp = dec_exp x + dec_exp y\<rparr>"
  by (simp add: dec_mul_def Let_def)

lemma dec_value_mult:
  "dec_value \<lparr>dec_sign = (dec_sign x \<noteq> dec_sign y), dec_int = dec_int x * dec_int y,
              dec_exp = dec_exp x + dec_exp y\<rparr> = dec_value x * dec_value y"
  by (simp add: dec_value_def power_int_add)

lemma dec_mul_exact:
  assumes "dec_int x * dec_int y < 10 ^ 28"
    and "Etiny \<le> dec_exp x + dec_exp y" and "dec_exp x + dec_exp y \<le> Etop"
  shows "\<exists>r. dec_mul x y = Inr r \<and> dec_value r = dec_value x * dec_value y"
proof -
  let ?d = "\<lparr>dec_sign = (dec_sign x \<noteq> dec_sign y), dec_int = dec_int x * dec_int y,
              dec_exp = dec_exp x + dec_exp y\<rparr>"
  have v: "dec_value ?d = dec_value x * dec_value y" by (rule dec_value_mult)
  show ?thesis
  proof (cases "dec_int x * dec_int y = 0")
    case True
    then have z: "dec_int ?d = 0" by simp
    have "dec_value (?d\<lparr>dec_exp := min (max (dec_exp ?d) Etiny) Emax\<rparr>) = 0"
      using z by (simp add: dec_value_def)
    moreover from z have "dec_value ?d = 0" by (rule dec_value_zero)
    ultimately show ?thesis
      using dec_fix_zero [OF z] v by (simp only: dec_mul_fix) simp
  next
    case False
    have "dec_fix ?d = Inr ?d"
      by (rule dec_fix_unchanged) (use assms False in simp_all)
    with v show ?thesis by (simp only: dec_mul_fix) simp
  qed
qed

lemma ndigits_pos: "0 < ndigits n"
  by (subst ndigits.simps) simp

lemma ndigits_100: "ndigits 100 = 3"
  by (simp add: ndigits.simps)

lemma dec_truediv_hundred_exact:
  assumes d: "dec_int x < 10 ^ 28" and lo: "Etiny + 2 \<le> dec_exp x" and hi: "dec_exp x \<le> Etop"
  shows "\<exists>q. dec_truediv x (Decimal 100) = Inr q \<and> dec_value q = dec_value x / 100
           \<and> dec_int q \<le> dec_int x \<and> dec_exp x - 2 \<le> dec_exp q \<and> dec_exp q \<le> dec_exp x"
proof (cases "dec_int x = 0")
  case True
  let ?z = "\<lparr>dec_sign = (dec_sign x \<noteq> False), dec_int = 0, dec_exp = dec_exp x - 0\<rparr>"
  have t: "dec_truediv x (Decimal 100) = dec_fix ?z"
    using True by (simp add: dec_truediv_def Decimal_def)
  have "dec_fix ?z = Inr (?z\<lparr>dec_exp := min (max (dec_exp ?z) Etiny) Emax\<rparr>)"
    by (rule dec_fix_zero) simp
  moreover from lo hi have "min (max (dec_exp ?z) Etiny) Emax = dec_exp x"
    by (simp add: Etop_def Etiny_def Emax_def Emin_def context_prec_def)
  ultimately have "dec_fix ?z = Inr (?z\<lparr>dec_exp := dec_exp x\<rparr>)" by simp
  with t True show ?thesis by (simp add: dec_value_def)
next
  case False
  define n where "n = ndigits (dec_int x)"
  define k where "k = 30 - n"
  have n: "0 < n" "n \<le> 28"
    using d by (simp_all add: n_def ndigits_pos ndigits_le)
  define shift where "shift = int (ndigits 100) - int n + context_prec + 1"
  have shift: "nat shift = Suc (Suc k)" "0 \<le> shift" "shift = int k + 2"
    using n by (simp_all add: shift_def k_def ndigits_100 context_prec_def)
  have num: "dec_int x * 10 ^ nat shift = (dec_int x * 10 ^ k) * 100"
    by (simp add: shift(1))
  have dv: "(dec_int x * 10 ^ nat shift) div 100 = dec_int x * 10 ^ k"
    and md: "(dec_int x * 10 ^ nat shift) mod 100 = 0"
    by (simp_all only: num) simp_all
  obtain c' e' where s: "strip_zeros (dec_exp x) (dec_int x) (dec_exp x - 2) = (c', e')"
    by (cases "strip_zeros (dec_exp x) (dec_int x) (dec_exp x - 2)")
  have "strip_zeros (dec_exp x) (dec_int x * 10 ^ k) (dec_exp x - shift)
          = strip_zeros (dec_exp x) (dec_int x) (dec_exp x - shift + int k)"
    by (rule strip_zeros_shift) (simp add: shift(3))
  with s have s': "strip_zeros (dec_exp x) (dec_int x * 10 ^ k) (dec_exp x - shift) = (c', e')"
    by (simp add: shift(3))
  from strip_zeros_props [OF s] have p: "c' * 10 ^ nat (e' - (dec_exp x - 2)) = dec_int x"
    "dec_exp x - 2 \<le> e'" "e' \<le> dec_exp x" by simp_all
  let ?q = "\<lparr>dec_sign = dec_sign x, dec_int = c', dec_exp = e'\<rparr>"
  have t: "dec_truediv x (Decimal 100) = dec_fix ?q"
    using False s' dv md shift(2)
    by (simp add: dec_truediv_def Decimal_def Let_def shift_def [symmetric] n_def [symmetric])
  from p(1) False have c0: "c' \<noteq> 0" by (cases "c' = 0") simp_all
  from p(1) have le: "c' \<le> dec_int x"
    by (metis One_nat_def Suc_leI le_add2 mult.right_neutral mult_le_mono2 nat_mult_1_right
        one_le_numeral one_le_power plus_1_eq_Suc zero_less_numeral zero_less_power)
  have "dec_fix ?q = Inr ?q"
    by (rule dec_fix_unchanged) (use c0 le d lo hi p in simp_all)
  moreover have "dec_value ?q = dec_value x / 100"
  proof -
    have "e' = (dec_exp x - 2) + int (nat (e' - (dec_exp x - 2)))" using p(2) by simp
    then have "(10::rat) powi e' = 10 powi (dec_exp x - 2) * 10 ^ nat (e' - (dec_exp x - 2))"
      by (metis power_int_add power_int_of_nat zero_neq_numeral)
    moreover have "(of_nat (dec_int x) :: rat) = of_nat c' * 10 ^ nat (e' - (dec_exp x - 2))"
      using p(1) by (metis of_nat_mult of_nat_numeral of_nat_power)
    moreover have "(10::rat) powi (dec_exp x - 2) = 10 powi dec_exp x / 100"
      by (simp add: power_int_diff)
    ultimately show ?thesis by (simp add: dec_value_def)
  qed
  ultimately show ?thesis using t le p by simp
qed

lemma dec_value_sign:
  "(0 \<le> dec_value d) = (\<not> dec_sign d \<or> dec_int d = 0)"
  "(0 < dec_value d) = (\<not> dec_sign d \<and> dec_int d \<noteq> 0)"
  "(dec_value d \<le> 0) = (dec_sign d \<or> dec_int d = 0)"
proof -
  define X :: rat where "X = of_nat (dec_int d) * 10 powi dec_exp d"
  have pos: "(0::rat) < 10 powi dec_exp d" by (simp add: zero_less_power_int)
  have nn: "0 \<le> X" unfolding X_def using pos by simp
  have z: "(X = 0) = (dec_int d = 0)" unfolding X_def using pos by simp
  have v: "dec_value d = (if dec_sign d then - X else X)" by (simp add: dec_value_def X_def)
  have m: "(0 \<le> - X) = (X = 0)" "(0 < - X) = False" "(- X \<le> 0) = True"
    using nn by auto
  have q: "(0 \<le> X) = True" "(0 < X) = (X \<noteq> 0)" "(X \<le> 0) = (X = 0)"
    using nn by auto
  show "(0 \<le> dec_value d) = (\<not> dec_sign d \<or> dec_int d = 0)"
    by (cases "dec_sign d") (simp_all only: v m q z if_True if_False simp_thms)
  show "(0 < dec_value d) = (\<not> dec_sign d \<and> dec_int d \<noteq> 0)"
    by (cases "dec_sign d") (simp_all only: v m q z if_True if_False simp_thms)
  show "(dec_value d \<le> 0) = (dec_sign d \<or> dec_int d = 0)"
    by (cases "dec_sign d") (simp_all only: v m q z if_True if_False simp_thms)
qed

lemma eighty_percent:
  "dec_truediv (Decimal 80) (Decimal 100) = Inr \<lparr>dec_sign = False, dec_int = 8, dec_exp = - 1\<rparr>"
  by (simp add: dec_truediv_def Decimal_def Let_def ndigits.simps strip_zeros.simps dec_fix_def
      context_prec_def Etop_def Etiny_def Emax_def Emin_def)

lemma eighty_percent_of_two_million:
  "dec_mul (Decimal 2000000) \<lparr>dec_sign = False, dec_int = 8, dec_exp = - 1\<rparr>
     = Inr \<lparr>dec_sign = False, dec_int = 16000000, dec_exp = - 1\<rparr>"
  by (simp add: dec_mul_def Decimal_def Let_def ndigits.simps dec_fix_def
      context_prec_def Etop_def Etiny_def Emax_def Emin_def)

lemma third_percent:
  "dec_truediv \<lparr>dec_sign = False, dec_int = 3333333333333333333333, dec_exp = - 20\<rparr> (Decimal 100)
     = Inr \<lparr>dec_sign = False, dec_int = 3333333333333333333333, dec_exp = - 22\<rparr>"
  by (simp add: dec_truediv_def Decimal_def Let_def ndigits.simps strip_zeros.simps dec_fix_def
      context_prec_def Etop_def Etiny_def Emax_def Emin_def)

lemma third_percent_of_million_and_a_cent:
  "dec_mul \<lparr>dec_sign = False, dec_int = 100000001, dec_exp = - 2\<rparr>
       \<lparr>dec_sign = False, dec_int = 3333333333333333333333, dec_exp = - 22\<rparr>
     = Inr \<lparr>dec_sign = False, dec_int = 3333333366666666666666333333, dec_exp = - 22\<rparr>"
proof -
  have nd: "ndigits 333333336666666666666633333333 = 30"
    by (simp add: ndigits.simps)
  have rh: "round_half_even 333333336666666666666633333333 28 = - 1"
    by (simp add: round_half_even_def nd)
  have "dec_fix \<lparr>dec_sign = False, dec_int = 333333336666666666666633333333, dec_exp = - 24\<rparr>
      = Inr \<lparr>dec_sign = False, dec_int = 3333333366666666666666333333, dec_exp = - 22\<rparr>"
    by (simp add: dec_fix_def nd rh context_prec_def Etop_def Etiny_def Emax_def Emin_def)
  then show ?thesis
    by (simp add: dec_mul_def)
qed

lemma standard_refund:
  "calculate_refund standard_policy two_million cancellation_date check_in_date =
     Inr \<lparr>amount = (if (check_in_date - cancellation_date) * 24 \<ge> 24
                     then \<lparr>dec_sign = False, dec_int = 16000000, dec_exp = - 1\<rparr>
                     else Decimal 0),
          currency = ''IDR''\<rparr>"
  by (simp add: calculate_refund_def standard_policy_def two_million_def eighty_percent
      eighty_percent_of_two_million Money_def validated_def dec_value_sign date_sub_def
      timedelta_days_def)
     (simp add: Decimal_def)

subsection \<open>Cancellation policy: the refund\<close>

text \<open>
  C4, as stated: the refund is the total times the percentage over 100 whenever the hours
  to check-in reach the deadline, and with a refund of 80 percent and a deadline of 24
  hours, cancelling exactly 24 hours before check-in yields the 80 percent and
  cancelling one hour later yields nothing. Two things differ in the code.
  \<open>calculate_refund\<close> takes calendar dates and counts 24 hours for each day between
  them: an instant 24 hours before the start of the day of check-in and the instant one
  hour later lie on the same calendar day, so both give the 80 percent, of 1600000.0 on
  2000000. And the arithmetic is that of \<^verbatim>\<open>Decimal\<close>, which rounds to 28 significant
  digits: on 1000000.01 at 33.33333333333333333333 percent the refund is
  333333.3366666666666666333333, which is not the product
  333333.336666666666666633333333.
\<close>

theorem refund_one_hour_later_counterexample:
  "date_of (739010 * usec_per_day - 24 * 3600 * usec_per_second) = 739009
   \<and> calculate_refund standard_policy two_million
         (date_of (739010 * usec_per_day - 24 * 3600 * usec_per_second)) 739010
       = Inr \<lparr>amount = \<lparr>dec_sign = False, dec_int = 16000000, dec_exp = - 1\<rparr>, currency = ''IDR''\<rparr>
   \<and> date_of (739010 * usec_per_day - 23 * 3600 * usec_per_second) = 739009
   \<and> calculate_refund standard_policy two_million
         (date_of (739010 * usec_per_day - 23 * 3600 * usec_per_second)) 739010
       = Inr \<lparr>amount = \<lparr>dec_sign = False, dec_int = 16000000, dec_exp = - 1\<rparr>, currency = ''IDR''\<rparr>
   \<and> dec_value \<lparr>dec_sign = False, dec_int = 16000000, dec_exp = - 1\<rparr> \<noteq> 0
   \<and> calculate_refund third_policy million_and_a_cent 739009 739010
       = Inr \<lparr>amount = \<lparr>dec_sign = False, dec_int = 3333333366666666666666333333, dec_exp = - 22\<rparr>,
              currency = ''IDR''\<rparr>
   \<and> dec_value \<lparr>dec_sign = False, dec_int = 3333333366666666666666333333, dec_exp = - 22\<rparr>
       \<noteq> dec_value (amount million_and_a_cent) * dec_value (refund_percentage third_policy) / 100"
proof -
  have d24: "date_of (739010 * usec_per_day - 24 * 3600 * usec_per_second) = 739009"
    and d23: "date_of (739010 * usec_per_day - 23 * 3600 * usec_per_second) = 739009"
    by (simp_all add: time_defs)
  have r: "calculate_refund standard_policy two_million 739009 739010
       = Inr \<lparr>amount = \<lparr>dec_sign = False, dec_int = 16000000, dec_exp = - 1\<rparr>, currency = ''IDR''\<rparr>"
    by (simp add: standard_refund)
  have nz: "dec_value \<lparr>dec_sign = False, dec_int = 16000000, dec_exp = - 1\<rparr> \<noteq> 0"
    by (simp add: dec_value_def)
  have q: "dec_truediv (refund_percentage third_policy) (Decimal 100)
       = Inr \<lparr>dec_sign = False, dec_int = 3333333333333333333333, dec_exp = - 22\<rparr>"
    by (simp add: third_policy_def third_percent)
  have m: "dec_mul (amount million_and_a_cent)
         \<lparr>dec_sign = False, dec_int = 3333333333333333333333, dec_exp = - 22\<rparr>
       = Inr \<lparr>dec_sign = False, dec_int = 3333333366666666666666333333, dec_exp = - 22\<rparr>"
    by (simp add: million_and_a_cent_def third_percent_of_million_and_a_cent)
  have t: "calculate_refund third_policy million_and_a_cent 739009 739010
       = Inr \<lparr>amount = \<lparr>dec_sign = False, dec_int = 3333333366666666666666333333, dec_exp = - 22\<rparr>,
              currency = ''IDR''\<rparr>"
    by (simp add: calculate_refund_def q m Money_def validated_def dec_value_sign date_sub_def
        timedelta_days_def)
       (simp add: third_policy_def million_and_a_cent_def)
  have v: "dec_value \<lparr>dec_sign = False, dec_int = 3333333366666666666666333333, dec_exp = - 22\<rparr>
       \<noteq> dec_value (amount million_and_a_cent) * dec_value (refund_percentage third_policy) / 100"
    by (simp add: dec_value_def million_and_a_cent_def third_policy_def power_int_minus
        field_simps)
  from d24 d23 r nz t v show ?thesis by simp
qed

text \<open>
  C4, amended: for a total and a percentage that are not negative, whose exponents lie
  between \<open>-1000\<close> and \<open>1000\<close> and whose coefficients are such that the percentage has
  at most 28 digits and the product of the two coefficients has at most 28 digits,
  \<open>calculate_refund\<close> returns, in the currency of the total, exactly the total times the
  percentage over 100 when 24 times the number of days from the cancellation date to the
  check-in date is at least \<open>deadline_hours\<close>, and zero otherwise. With 80 percent and 24
  hours, a cancellation on the day before check-in yields the 80 percent and a
  cancellation on the day of check-in yields zero.
\<close>

theorem calculate_refund_whole_days:
  "(0 \<le> dec_value (amount m) \<and> 0 \<le> dec_value (refund_percentage p)
    \<and> dec_int (refund_percentage p) < 10 ^ 28
    \<and> dec_int (amount m) * dec_int (refund_percentage p) < 10 ^ 28
    \<and> \<bar>dec_exp (amount m)\<bar> \<le> 1000 \<and> \<bar>dec_exp (refund_percentage p)\<bar> \<le> 1000
    \<longrightarrow> (\<exists>r. calculate_refund p m cancellation_date check_in_date = Inr r
           \<and> currency r = currency m
           \<and> dec_value (amount r) =
                 (if (check_in_date - cancellation_date) * 24 \<ge> deadline_hours p
                  then dec_value (amount m) * dec_value (refund_percentage p) / 100
                  else 0)))
   \<and> calculate_refund standard_policy two_million (d - 1) d
        = Inr \<lparr>amount = \<lparr>dec_sign = False, dec_int = 16000000, dec_exp = - 1\<rparr>, currency = ''IDR''\<rparr>
   \<and> dec_value \<lparr>dec_sign = False, dec_int = 16000000, dec_exp = - 1\<rparr> = 1600000
   \<and> calculate_refund standard_policy two_million d d
        = Inr \<lparr>amount = Decimal 0, currency = ''IDR''\<rparr>
   \<and> dec_value (Decimal 0) = 0"
proof -
  have general: "\<exists>r. calculate_refund p m cancellation_date check_in_date = Inr r
           \<and> currency r = currency m
           \<and> dec_value (amount r) =
                 (if (check_in_date - cancellation_date) * 24 \<ge> deadline_hours p
                  then dec_value (amount m) * dec_value (refund_percentage p) / 100
                  else 0)"
    if h: "0 \<le> dec_value (amount m)" "0 \<le> dec_value (refund_percentage p)"
      "dec_int (refund_percentage p) < 10 ^ 28"
      "dec_int (amount m) * dec_int (refund_percentage p) < 10 ^ 28"
      "\<bar>dec_exp (amount m)\<bar> \<le> 1000" "\<bar>dec_exp (refund_percentage p)\<bar> \<le> 1000"
  proof (cases "(check_in_date - cancellation_date) * 24 \<ge> deadline_hours p")
    case True
    from h(6) have "Etiny + 2 \<le> dec_exp (refund_percentage p)" "dec_exp (refund_percentage p) \<le> Etop"
      by (simp_all add: Etiny_def Etop_def Emin_def Emax_def context_prec_def)
    from dec_truediv_hundred_exact [OF h(3) this] obtain q where
      q: "dec_truediv (refund_percentage p) (Decimal 100) = Inr q"
        "dec_value q = dec_value (refund_percentage p) / 100"
        "dec_int q \<le> dec_int (refund_percentage p)"
        "dec_exp (refund_percentage p) - 2 \<le> dec_exp q" "dec_exp q \<le> dec_exp (refund_percentage p)"
      by blast
    from q(3) have "dec_int (amount m) * dec_int q \<le> dec_int (amount m) * dec_int (refund_percentage p)"
      by (rule mult_le_mono2)
    from this h(4) have small: "dec_int (amount m) * dec_int q < 10 ^ 28"
      by (rule le_less_trans)
    from h(5,6) q(4,5) have "Etiny \<le> dec_exp (amount m) + dec_exp q"
      "dec_exp (amount m) + dec_exp q \<le> Etop"
      by (simp_all add: Etiny_def Etop_def Emin_def Emax_def context_prec_def)
    from dec_mul_exact [OF small this] obtain r where
      r: "dec_mul (amount m) q = Inr r" "dec_value r = dec_value (amount m) * dec_value q"
      by blast
    from h(2) have "0 \<le> dec_value (refund_percentage p) / 100" by simp
    with h(1) have "0 \<le> dec_value (amount m) * (dec_value (refund_percentage p) / 100)"
      by (rule mult_nonneg_nonneg)
    with r(2) q(2) have "0 \<le> dec_value r" by (simp only:)
    with True q(1) r have "calculate_refund p m cancellation_date check_in_date
        = Inr \<lparr>amount = r, currency = currency m\<rparr>"
      by (simp add: calculate_refund_def Money_def validated_def date_sub_def timedelta_days_def)
    with True r(2) q(2) show ?thesis by simp
  next
    case False
    then have "calculate_refund p m cancellation_date check_in_date
        = Inr \<lparr>amount = Decimal 0, currency = currency m\<rparr>"
      by (simp add: calculate_refund_def Money_def validated_def date_sub_def timedelta_days_def
          dec_value_sign)
         (simp add: Decimal_def)
    moreover have "dec_value (Decimal 0) = 0" by (simp add: dec_value_def Decimal_def)
    ultimately show ?thesis using False by simp
  qed
  have a: "calculate_refund standard_policy two_million (d - 1) d
        = Inr \<lparr>amount = \<lparr>dec_sign = False, dec_int = 16000000, dec_exp = - 1\<rparr>, currency = ''IDR''\<rparr>"
    and b: "calculate_refund standard_policy two_million d d
        = Inr \<lparr>amount = Decimal 0, currency = ''IDR''\<rparr>"
    by (simp_all add: standard_refund)
  have c: "dec_value \<lparr>dec_sign = False, dec_int = 16000000, dec_exp = - 1\<rparr> = 1600000"
    and z: "dec_value (Decimal 0) = 0"
    by (simp_all add: dec_value_def Decimal_def)
  from general a b c z show ?thesis by blast
qed

theorem calculate_refund_whole_days_witness:
  "0 \<le> dec_value (amount two_million) \<and> 0 \<le> dec_value (refund_percentage standard_policy)
   \<and> dec_int (refund_percentage standard_policy) < 10 ^ 28
   \<and> dec_int (amount two_million) * dec_int (refund_percentage standard_policy) < 10 ^ 28
   \<and> \<bar>dec_exp (amount two_million)\<bar> \<le> 1000
   \<and> \<bar>dec_exp (refund_percentage standard_policy)\<bar> \<le> 1000
   \<and> (\<exists>r. calculate_refund standard_policy two_million 739008 739010 = Inr r
         \<and> currency r = ''IDR'' \<and> dec_value (amount r) = 1600000)
   \<and> calculate_refund standard_policy two_million 739009 739010
        = Inr \<lparr>amount = \<lparr>dec_sign = False, dec_int = 16000000, dec_exp = - 1\<rparr>, currency = ''IDR''\<rparr>
   \<and> calculate_refund standard_policy two_million 739010 739010
        = Inr \<lparr>amount = Decimal 0, currency = ''IDR''\<rparr>"
proof -
  have h: "0 \<le> dec_value (amount two_million) \<and> 0 \<le> dec_value (refund_percentage standard_policy)
   \<and> dec_int (refund_percentage standard_policy) < 10 ^ 28
   \<and> dec_int (amount two_million) * dec_int (refund_percentage standard_policy) < 10 ^ 28
   \<and> \<bar>dec_exp (amount two_million)\<bar> \<le> 1000
   \<and> \<bar>dec_exp (refund_percentage standard_policy)\<bar> \<le> 1000"
    by (simp add: two_million_def standard_policy_def Decimal_def dec_value_sign)
  have v: "dec_value (amount two_million) * dec_value (refund_percentage standard_policy) / 100
      = 1600000"
    and c: "currency two_million = ''IDR''" and dl: "deadline_hours standard_policy = 24"
    by (simp_all add: two_million_def standard_policy_def Decimal_def dec_value_def)
  note t = calculate_refund_whole_days
    [where m = two_million and p = standard_policy and cancellation_date = 739008
       and check_in_date = 739010 and d = 739010]
  from t h have "\<exists>r. calculate_refund standard_policy two_million 739008 739010 = Inr r
         \<and> currency r = currency two_million
         \<and> dec_value (amount r) =
               (if (739010 - 739008) * 24 \<ge> deadline_hours standard_policy
                then dec_value (amount two_million) * dec_value (refund_percentage standard_policy) / 100
                else 0)"
    by blast
  then have e: "\<exists>r. calculate_refund standard_policy two_million 739008 739010 = Inr r
         \<and> currency r = ''IDR'' \<and> dec_value (amount r) = 1600000"
    by (simp add: v c dl)
  from t have "calculate_refund standard_policy two_million (739010 - 1) 739010
        = Inr \<lparr>amount = \<lparr>dec_sign = False, dec_int = 16000000, dec_exp = - 1\<rparr>, currency = ''IDR''\<rparr>"
    and "calculate_refund standard_policy two_million 739010 739010
        = Inr \<lparr>amount = Decimal 0, currency = ''IDR''\<rparr>"
    by blast+
  with h e show ?thesis by simp
qed

subsection \<open>Reservation: modification and the invariants of the class\<close>

text \<open>
  C2. A successful \<open>modify\<close> is to leave a reservation of 1 to 30 nights, with at least
  one adult and a positive amount, and is to reject a new date range of more than 30
  nights. \<open>modify\<close> assigns the new values without running the validators that
  \<open>create\<close> runs. A pending booking of two nights, ten days ahead, is modifiable;
  \<open>create\<close> rejects a range of 31 nights with "Maximum stay is 30 nights", and
  \<open>modify\<close> accepts the same range and leaves a reservation of 31 nights.
\<close>

theorem modify_skips_validators:
  "DateRange noon 739010 739041 = Inr thirty_one_nights
   \<and> create noon 1 7 ''DELUXE_001'' two_nights two_adults two_million standard_policy ONLINE
        ''AB12CD34'' ''SYSTEM'' = Inr booking
   \<and> reservation_invariants booking
   \<and> is_modifiable noon booking
   \<and> create noon 1 7 ''DELUXE_001'' thirty_one_nights two_adults two_million standard_policy
        ONLINE ''AB12CD34'' ''SYSTEM'' = Inl (ValidationError [''Maximum stay is 30 nights''])
   \<and> fst (modify noon (Some thirty_one_nights) None None None booking) = Inr ()
   \<and> nights (date_range (snd (modify noon (Some thirty_one_nights) None None None booking))) = 31
   \<and> \<not> reservation_invariants (snd (modify noon (Some thirty_one_nights) None None None booking))"
  by (simp add: DateRange_def check_in_not_past_def check_out_after_check_in_def validated_def
      create_def validate_date_range_def validate_guest_count_def validate_amount_def nights_def
      time_defs noon_def thirty_one_nights_def two_nights_def two_adults_def two_million_def
      booking_def reservation_invariants_def is_modifiable_def modify_def dec_value_sign
      Decimal_def)

subsection \<open>Atomicity on failure\<close>

text \<open>
  C5. When one of the six Reservation operations that can fail, one of the four
  Availability mutators or \<open>convert_to_reservation\<close> raises, the aggregate is left as it
  was before the call, in every field.
\<close>

theorem failure_leaves_aggregate_unchanged:
  "(isl (fst (confirm clk paid r)) \<longrightarrow> snd (confirm clk paid r) = r)
   \<and> (isl (fst (check_in_res clk room r)) \<longrightarrow> snd (check_in_res clk room r) = r)
   \<and> (isl (fst (check_out_res clk r)) \<longrightarrow> snd (check_out_res clk r) = r)
   \<and> (isl (fst (cancel clk reason r)) \<longrightarrow> snd (cancel clk reason r) = r)
   \<and> (isl (fst (mark_no_show clk r)) \<longrightarrow> snd (mark_no_show clk r) = r)
   \<and> (isl (fst (modify clk nd ng nt nm r)) \<longrightarrow> snd (modify clk nd ng nt nm r) = r)
   \<and> (isl (fst (reserve_rooms clk c a)) \<longrightarrow> snd (reserve_rooms clk c a) = a)
   \<and> (isl (fst (release_rooms clk c a)) \<longrightarrow> snd (release_rooms clk c a) = a)
   \<and> (isl (fst (block_rooms clk c why a)) \<longrightarrow> snd (block_rooms clk c why a) = a)
   \<and> (isl (fst (unblock_rooms clk c a)) \<longrightarrow> snd (unblock_rooms clk c a) = a)
   \<and> (isl (fst (convert_to_reservation rid e)) \<longrightarrow> snd (convert_to_reservation rid e) = e)"
proof -
  have "isl (fst (confirm clk paid r)) \<longrightarrow> snd (confirm clk paid r) = r"
    by (simp add: confirm_def)
  moreover have "isl (fst (check_in_res clk room r)) \<longrightarrow> snd (check_in_res clk room r) = r"
    by (simp add: check_in_res_def)
  moreover have "isl (fst (check_out_res clk r)) \<longrightarrow> snd (check_out_res clk r) = r"
    by (simp add: check_out_res_def Let_def)
  moreover have "isl (fst (cancel clk reason r)) \<longrightarrow> snd (cancel clk reason r) = r"
    by (simp add: cancel_def split: sum.split)
  moreover have "isl (fst (mark_no_show clk r)) \<longrightarrow> snd (mark_no_show clk r) = r"
    by (simp add: mark_no_show_def)
  moreover have "isl (fst (modify clk nd ng nt nm r)) \<longrightarrow> snd (modify clk nd ng nt nm r) = r"
    by (simp add: modify_def Let_def)
  moreover have "isl (fst (reserve_rooms clk c a)) \<longrightarrow> snd (reserve_rooms clk c a) = a"
    by (simp add: reserve_rooms_def)
  moreover have "isl (fst (release_rooms clk c a)) \<longrightarrow> snd (release_rooms clk c a) = a"
    by (simp add: release_rooms_def)
  moreover have "isl (fst (block_rooms clk c why a)) \<longrightarrow> snd (block_rooms clk c why a) = a"
    by (simp add: block_rooms_def)
  moreover have "isl (fst (unblock_rooms clk c a)) \<longrightarrow> snd (unblock_rooms clk c a) = a"
    by (simp add: unblock_rooms_def)
  moreover have "isl (fst (convert_to_reservation rid e)) \<longrightarrow> snd (convert_to_reservation rid e) = e"
    by (simp add: convert_to_reservation_def)
  ultimately show ?thesis by blast
qed

theorem failure_leaves_aggregate_unchanged_witness:
  "isl (fst (confirm noon False booking)) \<and> snd (confirm noon False booking) = booking
   \<and> isl (fst (check_in_res noon ''301'' booking)) \<and> snd (check_in_res noon ''301'' booking) = booking
   \<and> isl (fst (check_out_res noon booking)) \<and> snd (check_out_res noon booking) = booking
   \<and> isl (fst (cancel noon ''late'' (booking\<lparr>status := CHECKED_OUT\<rparr>)))
   \<and> snd (cancel noon ''late'' (booking\<lparr>status := CHECKED_OUT\<rparr>)) = booking\<lparr>status := CHECKED_OUT\<rparr>
   \<and> isl (fst (mark_no_show noon (booking\<lparr>status := CHECKED_OUT\<rparr>)))
   \<and> snd (mark_no_show noon (booking\<lparr>status := CHECKED_OUT\<rparr>)) = booking\<lparr>status := CHECKED_OUT\<rparr>
   \<and> isl (fst (modify arrival_noon None (Some two_adults) None None booking))
   \<and> snd (modify arrival_noon None (Some two_adults) None None booking) = booking
   \<and> isl (fst (reserve_rooms noon 11 plain_day)) \<and> snd (reserve_rooms noon 11 plain_day) = plain_day
   \<and> isl (fst (release_rooms noon 11 plain_day)) \<and> snd (release_rooms noon 11 plain_day) = plain_day
   \<and> isl (fst (block_rooms noon 11 ''event'' plain_day))
   \<and> snd (block_rooms noon 11 ''event'' plain_day) = plain_day
   \<and> isl (fst (unblock_rooms noon 11 plain_day)) \<and> snd (unblock_rooms noon 11 plain_day) = plain_day
   \<and> isl (fst (convert_to_reservation 1 (expire waiting)))
   \<and> snd (convert_to_reservation 1 (expire waiting)) = expire waiting"
proof -
  have f1: "isl (fst (confirm noon False booking))"
    by (simp add: confirm_def booking_def)
  have f2: "isl (fst (check_in_res noon ''301'' booking))"
    by (simp add: check_in_res_def booking_def)
  have f3: "isl (fst (check_out_res noon booking))"
    by (simp add: check_out_res_def booking_def)
  have f4: "isl (fst (cancel noon ''late'' (booking\<lparr>status := CHECKED_OUT\<rparr>)))"
    by (simp add: cancel_def is_cancellable_def)
  have f5: "isl (fst (mark_no_show noon (booking\<lparr>status := CHECKED_OUT\<rparr>)))"
    by (simp add: mark_no_show_def)
  have f6: "isl (fst (modify arrival_noon None (Some two_adults) None None booking))"
    by (simp add: modify_def is_modifiable_def booking_def two_nights_def arrival_noon_def
        date_add_def timedelta_days_def)
  have f7: "isl (fst (reserve_rooms noon 11 plain_day))"
    by (simp add: reserve_rooms_def check_availability_def available_rooms_def plain_day_def)
  have f8: "isl (fst (release_rooms noon 11 plain_day))"
    by (simp add: release_rooms_def plain_day_def)
  have f9: "isl (fst (block_rooms noon 11 ''event'' plain_day))"
    by (simp add: block_rooms_def plain_day_def)
  have f10: "isl (fst (unblock_rooms noon 11 plain_day))"
    by (simp add: unblock_rooms_def plain_day_def)
  have f11: "isl (fst (convert_to_reservation 1 (expire waiting)))"
    by (simp add: convert_to_reservation_def expire_def waiting_def)
  note a = failure_leaves_aggregate_unchanged
    [of noon False booking "''301''" "''late''" None None None None 11 plain_day "''event''" 1
       "expire waiting"]
  note b = failure_leaves_aggregate_unchanged
    [of noon False "booking\<lparr>status := CHECKED_OUT\<rparr>" "''301''" "''late''" None None None None 11
       plain_day "''event''" 1 "expire waiting"]
  note c = failure_leaves_aggregate_unchanged
    [of arrival_noon False booking "''301''" "''late''" None "Some two_adults" None None 11
       plain_day "''event''" 1 "expire waiting"]
  from a f1 have g1: "snd (confirm noon False booking) = booking" by blast
  from a f2 have g2: "snd (check_in_res noon ''301'' booking) = booking" by blast
  from a f3 have g3: "snd (check_out_res noon booking) = booking" by blast
  from b f4 have g4: "snd (cancel noon ''late'' (booking\<lparr>status := CHECKED_OUT\<rparr>))
      = booking\<lparr>status := CHECKED_OUT\<rparr>" by blast
  from b f5 have g5: "snd (mark_no_show noon (booking\<lparr>status := CHECKED_OUT\<rparr>))
      = booking\<lparr>status := CHECKED_OUT\<rparr>" by blast
  from c f6 have g6: "snd (modify arrival_noon None (Some two_adults) None None booking) = booking"
    by blast
  from a f7 have g7: "snd (reserve_rooms noon 11 plain_day) = plain_day" by blast
  from a f8 have g8: "snd (release_rooms noon 11 plain_day) = plain_day" by blast
  from a f9 have g9: "snd (block_rooms noon 11 ''event'' plain_day) = plain_day" by blast
  from a f10 have g10: "snd (unblock_rooms noon 11 plain_day) = plain_day" by blast
  from a f11 have g11: "snd (convert_to_reservation 1 (expire waiting)) = expire waiting" by blast
  from f1 g1 f2 g2 f3 g3 f4 g4 f5 g5 f6 g6 have r: "isl (fst (confirm noon False booking)) \<and> snd (confirm noon False booking) = booking
   \<and> isl (fst (check_in_res noon ''301'' booking)) \<and> snd (check_in_res noon ''301'' booking) = booking
   \<and> isl (fst (check_out_res noon booking)) \<and> snd (check_out_res noon booking) = booking
   \<and> isl (fst (cancel noon ''late'' (booking\<lparr>status := CHECKED_OUT\<rparr>)))
   \<and> snd (cancel noon ''late'' (booking\<lparr>status := CHECKED_OUT\<rparr>)) = booking\<lparr>status := CHECKED_OUT\<rparr>
   \<and> isl (fst (mark_no_show noon (booking\<lparr>status := CHECKED_OUT\<rparr>)))
   \<and> snd (mark_no_show noon (booking\<lparr>status := CHECKED_OUT\<rparr>)) = booking\<lparr>status := CHECKED_OUT\<rparr>
   \<and> isl (fst (modify arrival_noon None (Some two_adults) None None booking))
   \<and> snd (modify arrival_noon None (Some two_adults) None None booking) = booking"
    by (intro conjI)
  from f7 g7 f8 g8 f9 g9 f10 g10 f11 g11 have v: "isl (fst (reserve_rooms noon 11 plain_day)) \<and> snd (reserve_rooms noon 11 plain_day) = plain_day
   \<and> isl (fst (release_rooms noon 11 plain_day)) \<and> snd (release_rooms noon 11 plain_day) = plain_day
   \<and> isl (fst (block_rooms noon 11 ''event'' plain_day))
   \<and> snd (block_rooms noon 11 ''event'' plain_day) = plain_day
   \<and> isl (fst (unblock_rooms noon 11 plain_day)) \<and> snd (unblock_rooms noon 11 plain_day) = plain_day
   \<and> isl (fst (convert_to_reservation 1 (expire waiting)))
   \<and> snd (convert_to_reservation 1 (expire waiting)) = expire waiting"
    by (intro conjI)
  from r v show ?thesis by (simp only: conj_assoc simp_thms)
qed

subsection \<open>Reservation: the way into CHECKED_IN\<close>

lemma run_append: "run r (xs @ ys) = run (run r xs) ys"
  by (induction xs arbitrary: r) simp_all

lemma modify_status: "status (snd (modify clk d g t m r)) = status r"
  by (simp add: modify_def Let_def split: option.split)

lemma enters_checked_in:
  assumes "status (apply_op c r) = CHECKED_IN" and "status r \<noteq> CHECKED_IN"
  shows "status r = CONFIRMED
         \<and> (\<exists>room. snd c = Check_in room \<and> fst (check_in_res (fst c) room r) = Inr ())"
proof (cases c)
  case (Pair clk op)
  show ?thesis
  proof (cases op)
    case (Modify d g t m)
    with Pair assms show ?thesis by (simp add: modify_status)
  next
    case (Add_special_request i rt descr)
    with Pair assms show ?thesis by (simp add: add_special_request_def Let_def)
  next
    case (Confirm p)
    with Pair assms show ?thesis by (simp add: confirm_def split: if_splits)
  next
    case (Check_in room)
    with Pair assms show ?thesis by (simp add: check_in_res_def split: if_splits)
  next
    case Check_out
    with Pair assms show ?thesis by (simp add: check_out_res_def Let_def split: if_splits)
  next
    case (Cancel reason)
    with Pair assms show ?thesis by (simp add: cancel_def split: if_splits sum.splits)
  next
    case Mark_no_show
    with Pair assms show ?thesis by (simp add: mark_no_show_def split: if_splits)
  qed
qed

lemma checked_in_has_check_in_call:
  "status r0 \<noteq> CHECKED_IN \<Longrightarrow> status (run r0 calls) = CHECKED_IN \<Longrightarrow>
     \<exists>before clk room after. calls = before @ (clk, Check_in room) # after
        \<and> status (run r0 before) = CONFIRMED
        \<and> fst (check_in_res clk room (run r0 before)) = Inr ()"
proof (induction calls rule: rev_induct)
  case Nil
  then show ?case by simp
next
  case (snoc c cs)
  show ?case
  proof (cases "status (run r0 cs) = CHECKED_IN")
    case True
    with snoc obtain before clk room after where
      "cs = before @ (clk, Check_in room) # after" "status (run r0 before) = CONFIRMED"
      "fst (check_in_res clk room (run r0 before)) = Inr ()"
      by blast
    then have "cs @ [c] = before @ (clk, Check_in room) # (after @ [c])" by simp
    with \<open>status (run r0 before) = CONFIRMED\<close> \<open>fst (check_in_res clk room (run r0 before)) = Inr ()\<close>
    show ?thesis by blast
  next
    case False
    from snoc.prems(2) have "status (apply_op c (run r0 cs)) = CHECKED_IN"
      by (simp add: run_append)
    from enters_checked_in [OF this False] obtain room where
      st: "status (run r0 cs) = CONFIRMED" and op: "snd c = Check_in room"
      and ok: "fst (check_in_res (fst c) room (run r0 cs)) = Inr ()"
      by blast
    from op have c: "c = (fst c, Check_in room)" by (cases c) simp
    with st ok have "cs @ [c] = cs @ (fst c, Check_in room) # [] \<and> status (run r0 cs) = CONFIRMED
        \<and> fst (check_in_res (fst c) room (run r0 cs)) = Inr ()" by simp
    then show ?thesis by blast
  qed
qed

text \<open>
  C6. Along every sequence of calls on a reservation that starts PENDING: no single call
  takes it from PENDING to CHECKED_IN; every call that takes the status to CHECKED_IN is
  a \<open>check_in\<close> made while the status is CONFIRMED; and if the sequence ends in
  CHECKED_IN, it contains a \<open>check_in\<close> call that was made while the status was
  CONFIRMED and that succeeded.
\<close>

theorem checked_in_only_from_confirmed:
  "status r0 = PENDING \<Longrightarrow>
     status (apply_op c r0) \<noteq> CHECKED_IN
     \<and> (\<forall>before c' after. calls = before @ c' # after
           \<and> status (run r0 before) \<noteq> CHECKED_IN
           \<and> status (apply_op c' (run r0 before)) = CHECKED_IN
         \<longrightarrow> status (run r0 before) = CONFIRMED \<and> (\<exists>room. snd c' = Check_in room))
     \<and> (status (run r0 calls) = CHECKED_IN \<longrightarrow>
          (\<exists>before clk room after. calls = before @ (clk, Check_in room) # after
             \<and> status (run r0 before) = CONFIRMED
             \<and> fst (check_in_res clk room (run r0 before)) = Inr ()))"
proof (intro conjI allI impI)
  assume p: "status r0 = PENDING"
  show "status (apply_op c r0) \<noteq> CHECKED_IN"
  proof
    assume "status (apply_op c r0) = CHECKED_IN"
    from enters_checked_in [OF this] p show False by simp
  qed
next
  fix before c' after
  assume "calls = before @ c' # after \<and> status (run r0 before) \<noteq> CHECKED_IN
           \<and> status (apply_op c' (run r0 before)) = CHECKED_IN"
  then show "status (run r0 before) = CONFIRMED" using enters_checked_in by blast
next
  fix before c' after
  assume "calls = before @ c' # after \<and> status (run r0 before) \<noteq> CHECKED_IN
           \<and> status (apply_op c' (run r0 before)) = CHECKED_IN"
  then show "\<exists>room. snd c' = Check_in room" using enters_checked_in by blast
next
  assume "status r0 = PENDING" and "status (run r0 calls) = CHECKED_IN"
  then show "\<exists>before clk room after. calls = before @ (clk, Check_in room) # after
             \<and> status (run r0 before) = CONFIRMED
             \<and> fst (check_in_res clk room (run r0 before)) = Inr ()"
    using checked_in_has_check_in_call [of r0 calls] by simp
qed

theorem checked_in_only_from_confirmed_witness:
  "status booking = PENDING
   \<and> status (run booking [(eve_noon, Confirm True), (arrival_noon, Check_in ''301'')]) = CHECKED_IN
   \<and> status (apply_op (arrival_noon, Check_in ''301'') booking) \<noteq> CHECKED_IN
   \<and> (\<exists>before clk room after.
         [(eve_noon, Confirm True), (arrival_noon, Check_in ''301'')]
           = before @ (clk, Check_in room) # after
         \<and> status (run booking before) = CONFIRMED)"
proof -
  have p: "status booking = PENDING" by (simp add: booking_def)
  have q: "status (run booking [(eve_noon, Confirm True), (arrival_noon, Check_in ''301'')]) = CHECKED_IN"
    by (simp add: booking_def confirm_def check_in_res_def arrival_noon_def two_nights_def time_defs)
  from checked_in_only_from_confirmed
    [OF p, of "(arrival_noon, Check_in ''301'')"
       "[(eve_noon, Confirm True), (arrival_noon, Check_in ''301'')]"] p q
  show ?thesis by blast
qed

subsection \<open>Reservation: effects and frame of each operation\<close>

text \<open>
  C8. Each of \<open>confirm\<close>, \<open>check_in\<close>, \<open>check_out\<close>, \<open>cancel\<close>, \<open>mark_no_show\<close>
  and \<open>modify\<close>, when it succeeds, sets its status (or, for \<open>modify\<close>, the supplied
  fields), sets \<open>modified_at\<close> to the clock and adds one to \<open>version\<close>.
  \<open>add_special_request\<close> appends the new request and sets \<open>modified_at\<close>, and leaves
  \<open>version\<close> as it was. Every other field is unchanged.
\<close>

theorem reservation_frame_effects:
  "(fst (confirm clk paid r) = Inr () \<longrightarrow>
      snd (confirm clk paid r)
        = r\<lparr>status := CONFIRMED, modified_at := utcnow clk, version := version r + 1\<rparr>)
   \<and> (fst (check_in_res clk room r) = Inr () \<longrightarrow>
      snd (check_in_res clk room r)
        = r\<lparr>status := CHECKED_IN, modified_at := utcnow clk, version := version r + 1\<rparr>)
   \<and> (\<not> isl (fst (check_out_res clk r)) \<longrightarrow>
      snd (check_out_res clk r)
        = r\<lparr>status := CHECKED_OUT, modified_at := utcnow clk, version := version r + 1\<rparr>)
   \<and> (\<not> isl (fst (cancel clk reason r)) \<longrightarrow>
      snd (cancel clk reason r)
        = r\<lparr>status := CANCELLED, modified_at := utcnow clk, version := version r + 1\<rparr>)
   \<and> (fst (mark_no_show clk r) = Inr () \<longrightarrow>
      snd (mark_no_show clk r)
        = r\<lparr>status := NO_SHOW, modified_at := utcnow clk, version := version r + 1\<rparr>)
   \<and> (fst (modify clk nd ng nt nm r) = Inr () \<longrightarrow>
      snd (modify clk nd ng nt nm r)
        = r\<lparr>date_range := (case nd of None \<Rightarrow> date_range r | Some d \<Rightarrow> d),
             guest_count := (case ng of None \<Rightarrow> guest_count r | Some g \<Rightarrow> g),
             room_type_id := (case nt of None \<Rightarrow> room_type_id r
                              | Some t \<Rightarrow> if t = [] then room_type_id r else t),
             total_amount := (case nm of None \<Rightarrow> total_amount r | Some m \<Rightarrow> m),
             modified_at := utcnow clk, version := version r + 1\<rparr>)
   \<and> add_special_request clk i rt descr r
        = (Inr (),
           r\<lparr>special_requests := special_requests r @
                 [\<lparr>request_id = i, request_type = rt, description = descr, fulfilled = False,
                   notes_sr = None, created_at_sr = utcnow clk\<rparr>],
              modified_at := utcnow clk\<rparr>)
   \<and> version (snd (add_special_request clk i rt descr r)) = version r"
proof -
  have "fst (confirm clk paid r) = Inr () \<longrightarrow>
      snd (confirm clk paid r)
        = r\<lparr>status := CONFIRMED, modified_at := utcnow clk, version := version r + 1\<rparr>"
    by (simp add: confirm_def)
  moreover have "fst (check_in_res clk room r) = Inr () \<longrightarrow>
      snd (check_in_res clk room r)
        = r\<lparr>status := CHECKED_IN, modified_at := utcnow clk, version := version r + 1\<rparr>"
    by (simp add: check_in_res_def)
  moreover have "\<not> isl (fst (check_out_res clk r)) \<longrightarrow>
      snd (check_out_res clk r)
        = r\<lparr>status := CHECKED_OUT, modified_at := utcnow clk, version := version r + 1\<rparr>"
    by (simp add: check_out_res_def Let_def)
  moreover have "\<not> isl (fst (cancel clk reason r)) \<longrightarrow>
      snd (cancel clk reason r)
        = r\<lparr>status := CANCELLED, modified_at := utcnow clk, version := version r + 1\<rparr>"
    by (simp add: cancel_def split: sum.split)
  moreover have "fst (mark_no_show clk r) = Inr () \<longrightarrow>
      snd (mark_no_show clk r)
        = r\<lparr>status := NO_SHOW, modified_at := utcnow clk, version := version r + 1\<rparr>"
    by (simp add: mark_no_show_def)
  moreover have "fst (modify clk nd ng nt nm r) = Inr () \<longrightarrow>
      snd (modify clk nd ng nt nm r)
        = r\<lparr>date_range := (case nd of None \<Rightarrow> date_range r | Some d \<Rightarrow> d),
             guest_count := (case ng of None \<Rightarrow> guest_count r | Some g \<Rightarrow> g),
             room_type_id := (case nt of None \<Rightarrow> room_type_id r
                              | Some t \<Rightarrow> if t = [] then room_type_id r else t),
             total_amount := (case nm of None \<Rightarrow> total_amount r | Some m \<Rightarrow> m),
             modified_at := utcnow clk, version := version r + 1\<rparr>"
    by (simp add: modify_def Let_def split: option.split)
  moreover have "add_special_request clk i rt descr r
        = (Inr (),
           r\<lparr>special_requests := special_requests r @
                 [\<lparr>request_id = i, request_type = rt, description = descr, fulfilled = False,
                   notes_sr = None, created_at_sr = utcnow clk\<rparr>],
              modified_at := utcnow clk\<rparr>)"
    by (simp add: add_special_request_def Let_def)
  moreover have "version (snd (add_special_request clk i rt descr r)) = version r"
    by (simp add: add_special_request_def Let_def)
  ultimately show ?thesis by blast
qed

theorem reservation_frame_effects_witness:
  "fst (confirm noon True booking) = Inr ()
   \<and> snd (confirm noon True booking)
       = booking\<lparr>status := CONFIRMED, modified_at := utcnow noon, version := 2\<rparr>
   \<and> fst (check_in_res arrival_noon ''301'' (booking\<lparr>status := CONFIRMED\<rparr>)) = Inr ()
   \<and> snd (check_in_res arrival_noon ''301'' (booking\<lparr>status := CONFIRMED\<rparr>))
       = booking\<lparr>status := CHECKED_IN, modified_at := utcnow arrival_noon, version := 2\<rparr>
   \<and> \<not> isl (fst (check_out_res arrival_noon (booking\<lparr>status := CHECKED_IN\<rparr>)))
   \<and> snd (check_out_res arrival_noon (booking\<lparr>status := CHECKED_IN\<rparr>))
       = booking\<lparr>status := CHECKED_OUT, modified_at := utcnow arrival_noon, version := 2\<rparr>
   \<and> \<not> isl (fst (cancel noon ''plans changed'' booking))
   \<and> snd (cancel noon ''plans changed'' booking)
       = booking\<lparr>status := CANCELLED, modified_at := utcnow noon, version := 2\<rparr>
   \<and> fst (mark_no_show noon booking) = Inr ()
   \<and> snd (mark_no_show noon booking)
       = booking\<lparr>status := NO_SHOW, modified_at := utcnow noon, version := 2\<rparr>
   \<and> fst (modify noon None (Some two_adults) (Some ''SUITE_001'') None booking) = Inr ()
   \<and> snd (modify noon None (Some two_adults) (Some ''SUITE_001'') None booking)
       = booking\<lparr>room_type_id := ''SUITE_001'', modified_at := utcnow noon, version := 2\<rparr>"
proof -
  have c1: "fst (confirm noon True booking) = Inr ()"
    by (simp add: confirm_def booking_def)
  have c2: "fst (check_in_res arrival_noon ''301'' (booking\<lparr>status := CONFIRMED\<rparr>)) = Inr ()"
    by (simp add: check_in_res_def booking_def two_nights_def arrival_noon_def time_defs)
  have c3: "\<not> isl (fst (check_out_res arrival_noon (booking\<lparr>status := CHECKED_IN\<rparr>)))"
    by (simp add: check_out_res_def Let_def)
  have c4: "\<not> isl (fst (cancel noon ''plans changed'' booking))"
    by (simp add: cancel_def is_cancellable_def calculate_refund_res_def standard_refund
        booking_def)
  have c5: "fst (mark_no_show noon booking) = Inr ()"
    by (simp add: mark_no_show_def booking_def)
  have c6: "fst (modify noon None (Some two_adults) (Some ''SUITE_001'') None booking) = Inr ()"
    by (simp add: modify_def is_modifiable_def booking_def two_nights_def noon_def time_defs)
  have v: "version booking = 1" "guest_count booking = two_adults"
    by (simp_all add: booking_def)
  note a = reservation_frame_effects
    [where clk = noon and r = booking and paid = True and reason = "''plans changed''"
       and nd = None and ng = "Some two_adults" and nt = "Some ''SUITE_001''" and nm = None]
  note b = reservation_frame_effects
    [where clk = arrival_noon and r = "booking\<lparr>status := CONFIRMED\<rparr>" and room = "''301''"]
  note c = reservation_frame_effects
    [where clk = arrival_noon and r = "booking\<lparr>status := CHECKED_IN\<rparr>"]
  show ?thesis
    using a b c c1 c2 c3 c4 c5 c6 v by simp
qed

subsection \<open>Waitlist: conversion and the recorded reservation\<close>

text \<open>
  An entry made by \<open>add_to_waitlist\<close> has a reservation id recorded exactly when it is
  CONVERTED, and every call of the five operations keeps it so.
\<close>

lemma add_to_waitlist_conversion_invariant:
  "add_to_waitlist clk i g rt d gc p = Inr e \<Longrightarrow> conversion_invariant e"
  by (auto simp: add_to_waitlist_def WaitlistEntry_def validated_def conversion_invariant_def
      Let_def split: if_splits)

lemma apply_wl_op_conversion_invariant:
  "conversion_invariant e \<Longrightarrow> conversion_invariant (apply_wl_op c e)"
proof (cases c)
  case (Pair clk op)
  assume "conversion_invariant e"
  with Pair show ?thesis
    by (cases op)
       (auto simp: conversion_invariant_def convert_to_reservation_def expire_def
          extend_expiry_def upgrade_priority_def mark_notified_def)
qed

lemma run_wl_conversion_invariant:
  "conversion_invariant e \<Longrightarrow> conversion_invariant (run_wl e cs)"
  by (induction cs arbitrary: e) (simp_all add: apply_wl_op_conversion_invariant)

text \<open>
  C7. The constructor is to reject an entry whose \<open>converted_reservation_id\<close> is set
  while its status is not CONVERTED, or the reverse. The validator for it is attached to
  \<open>status\<close>, which is validated before \<open>converted_reservation_id\<close> is known, so it
  never finds the id and never rejects. The constructor accepts an ACTIVE entry with a
  reservation id, and a CONVERTED entry without one.
\<close>

theorem WaitlistEntry_accepts_broken_conversion:
  "WaitlistEntry 3 7 ''DELUXE_001'' two_nights two_adults MEDIUM ACTIVE (utcnow noon)
      (datetime_add (utcnow noon) (timedelta_days 14)) None (Some 1)
     = Inr (waiting\<lparr>converted_reservation_id := Some 1\<rparr>)
   \<and> \<not> conversion_invariant (waiting\<lparr>converted_reservation_id := Some 1\<rparr>)
   \<and> WaitlistEntry 3 7 ''DELUXE_001'' two_nights two_adults MEDIUM CONVERTED (utcnow noon)
      (datetime_add (utcnow noon) (timedelta_days 14)) None None
     = Inr (waiting\<lparr>status_wl := CONVERTED\<rparr>)
   \<and> \<not> conversion_invariant (waiting\<lparr>status_wl := CONVERTED\<rparr>)"
  by (simp add: WaitlistEntry_def validate_guest_count_wl_def validate_status_for_conversion_def
      validate_expires_at_def validated_def waiting_def two_adults_def conversion_invariant_def
      time_defs noon_def)

subsection \<open>Waitlist: the priority score\<close>

text \<open>
  C9, as stated: the score is the ordinal of the priority times 100, plus twice the days
  waited, plus five times 14 minus the days to expiry, both day counts truncated. One hour
  after the expiry of an entry of MEDIUM priority made 14 days and one hour earlier, the
  difference \<open>expires_at - now\<close> is minus one hour: truncated it is 0 days and the score
  would be 298, while \<^verbatim>\<open>.days\<close> of the difference is \<open>-1\<close> and the score is 303.
\<close>

theorem calculate_priority_score_counterexample:
  "created_at_wl waiting = utcnow noon
   \<and> expires_at waiting - utcnow hour_after_expiry = - (3600 * usec_per_second)
   \<and> calculate_priority_score hour_after_expiry waiting = 303
   \<and> spec_priority_score hour_after_expiry waiting = 298
   \<and> calculate_priority_score hour_after_expiry waiting \<noteq> spec_priority_score hour_after_expiry waiting"
  by (simp add: calculate_priority_score_def spec_priority_score_def truncated_days_def
      waiting_def hour_after_expiry_def noon_def time_defs)

lemma truncated_days_nonneg: "0 \<le> us \<Longrightarrow> truncated_days us = us div usec_per_day"
  by (cases "us = 0") (simp_all add: truncated_days_def)

text \<open>
  C9, amended: the score is the ordinal of the priority (LOW 1, MEDIUM 2, HIGH 3,
  URGENT 4) times 100, plus twice the days waited, plus five times 14 minus the days to
  expiry, where the two day counts are the whole days of \<open>now - created_at\<close> and of
  \<open>expires_at - now\<close> rounded towards minus infinity. Between creation and expiry both
  differences are not negative, and the score is the one with truncated day counts.
\<close>

theorem calculate_priority_score_floor:
  "calculate_priority_score clk e =
     priority_value (priority e) * 100
     + ((utcnow clk - created_at_wl e) div usec_per_day) * 2
     + (14 - (expires_at e - utcnow clk) div usec_per_day) * 5
   \<and> priority_value LOW = 1 \<and> priority_value MEDIUM = 2
   \<and> priority_value HIGH = 3 \<and> priority_value URGENT = 4
   \<and> (created_at_wl e \<le> utcnow clk \<and> utcnow clk \<le> expires_at e
        \<longrightarrow> calculate_priority_score clk e = spec_priority_score clk e)"
proof -
  have a: "calculate_priority_score clk e =
     priority_value (priority e) * 100
     + ((utcnow clk - created_at_wl e) div usec_per_day) * 2
     + (14 - (expires_at e - utcnow clk) div usec_per_day) * 5"
    by (simp add: calculate_priority_score_def Let_def datetime_sub_def timedelta_of_usec_def)
  have b: "created_at_wl e \<le> utcnow clk \<and> utcnow clk \<le> expires_at e
        \<longrightarrow> calculate_priority_score clk e = spec_priority_score clk e"
    by (simp add: a spec_priority_score_def truncated_days_nonneg)
  from a b show ?thesis by simp
qed

theorem calculate_priority_score_floor_witness:
  "created_at_wl waiting \<le> utcnow third_day \<and> utcnow third_day \<le> expires_at waiting
   \<and> calculate_priority_score third_day waiting = 226
   \<and> spec_priority_score third_day waiting = 226"
proof -
  have h: "created_at_wl waiting \<le> utcnow third_day \<and> utcnow third_day \<le> expires_at waiting"
    by (simp add: waiting_def third_day_def noon_def time_defs)
  have v: "priority_value (priority waiting) * 100
     + ((utcnow third_day - created_at_wl waiting) div usec_per_day) * 2
     + (14 - (expires_at waiting - utcnow third_day) div usec_per_day) * 5 = 226"
    by (simp add: waiting_def third_day_def noon_def time_defs)
  from calculate_priority_score_floor [of third_day waiting] h v show ?thesis by simp
qed

end
